theory Spec2Isabelle
  imports Main "HOL-Library.Word" "HOL-Library.Signed_Division"
begin

section \<open>Data model of internal/driver/fetch.go\<close>

text \<open>
  A non-nil Go \<^verbatim>\<open>error\<close> is represented by its message (\<^verbatim>\<open>err.Error()\<close>); an
  \<^verbatim>\<open>error\<close> result that may be nil is an \<open>error option\<close>, \<open>None\<close> being nil.
  A library call with the Go convention "either a value and a nil error, or an error" is a sum,
  \<open>Inl\<close> the error.
\<close>

type_synonym error = string

text \<open>\<^verbatim>\<open>time.Duration\<close> is an int64 count of nanoseconds: \<open>+\<close> and \<open>*\<close> wrap, \<open>sint\<close> reads it.\<close>

type_synonym Duration = "64 word"

definition Second :: Duration where
  "Second = 1000000000"

text \<open>Go's \<^verbatim>\<open>/\<close> on int64 truncates towards zero.\<close>

definition sdiv64 :: "64 word \<Rightarrow> 64 word \<Rightarrow> 64 word" where
  "sdiv64 a b = word_of_int (sint a sdiv sint b)"

text \<open>\<^verbatim>\<open>profile.Mapping\<close>, the fields this file reads or writes.\<close>

record mapping =
  Start :: "64 word"
  Limit :: "64 word"
  Offset :: "64 word"
  File :: string
  BuildID :: string

text \<open>
  \<^verbatim>\<open>profile.Profile\<close>: the mapping list, the names of the sample types, and everything
  else (samples, locations, functions) as an opaque \<open>Body\<close>. \<^verbatim>\<open>p.Mapping\<close> is a slice of
  pointers that the code mutates in place; the entries are taken to be distinct and non-nil, as
  in every parsed or merged profile, so the slice is a list of values.
\<close>

record 'a profile =
  SampleType :: "string list"
  Mapping :: "mapping list"
  Body :: 'a

text \<open>
  \<^verbatim>\<open>plugin.MappingSources\<close> is \<^verbatim>\<open>map[string][]struct{Source string; Start uint64}\<close>.
  A nil map and an empty map are different values in Go, so the map is an option: \<open>None\<close> is nil.
\<close>

type_synonym sourceEntry = "string \<times> 64 word"
type_synonym MappingSources = "(string \<rightharpoonup> sourceEntry list) option"

text \<open>
  The driver's \<^verbatim>\<open>source\<close> configuration. \<^verbatim>\<open>Seconds\<close> and \<^verbatim>\<open>Timeout\<close> are Go ints (64 bit).
  The field \<^verbatim>\<open>BuildID\<close> is named \<open>sourceBuildID\<close> here, \<open>BuildID\<close> being the mapping's.
\<close>

record source =
  Sources :: "string list"
  Base :: "string list"
  ExecName :: string
  sourceBuildID :: string
  Seconds :: "64 word"
  Timeout :: "64 word"
  Symbolize :: string

text \<open>
  \<^verbatim>\<open>profileSource\<close>, the input fields of a fetch task. The fields \<^verbatim>\<open>p\<close>, \<^verbatim>\<open>msrc\<close>,
  \<^verbatim>\<open>remote\<close> and \<^verbatim>\<open>err\<close>, which the task writes into its own slot, are the value
  \<open>grabProfile\<close> returns. \<^verbatim>\<open>scale\<close> is a float64 that is only ever \<open>1\<close> or \<open>-1\<close>.
\<close>

record profileSource =
  addr :: string
  psource :: source
  scale :: int

text \<open>What \<^verbatim>\<open>plugin.UI\<close> receives: the arguments of each \<^verbatim>\<open>Print\<close> and \<^verbatim>\<open>PrintErr\<close> call.\<close>

datatype ui_event = Print "string list" | PrintErr "string list"

text \<open>\<^verbatim>\<open>url.URL\<close>: the three fields the code reads, and the path.\<close>

record URL =
  Scheme :: string
  Host :: string
  RawQuery :: string
  Path :: string

text \<open>\<^verbatim>\<open>url.Values\<close> is \<^verbatim>\<open>map[string][]string\<close>.\<close>

type_synonym Values = "string \<rightharpoonup> string list"

text \<open>\<^verbatim>\<open>http.Response\<close>: status code, status line and body.\<close>

record 'f Response =
  StatusCode :: nat
  Status :: string
  RespBody :: 'f

subsection \<open>The environment of the code\<close>

text \<open>
  Everything the file calls but does not define: the operating system, the standard library's
  \<^verbatim>\<open>net/url\<close>, \<^verbatim>\<open>path/filepath\<close>, \<^verbatim>\<open>strconv\<close>, \<^verbatim>\<open>net/http\<close> and \<^verbatim>\<open>os/exec\<close>, the
  packages \<^verbatim>\<open>profile\<close> and \<^verbatim>\<open>measurement\<close>, and the driver's temp-file helpers. Each is a
  function of its arguments; \<open>'f\<close> is an open file or stream, \<open>'a\<close> the opaque part of a profile.
\<close>

record ('a, 'f) world =
  Getenv :: "string \<Rightarrow> string"
  TempDir :: string
  MkdirAll :: "string \<Rightarrow> error option"
  osOpen :: "string \<Rightarrow> error + 'f"
  fileRead :: "'f \<Rightarrow> nat \<Rightarrow> error + string"
  fileName :: "'f \<Rightarrow> string"
  newTempFile :: "string \<Rightarrow> string \<Rightarrow> string \<Rightarrow> error + 'f"
  runCommand :: "string \<Rightarrow> string list \<Rightarrow> error option"
  urlParse :: "string \<Rightarrow> error + URL"
  urlString :: "URL \<Rightarrow> string"
  ParseQuery :: "string \<Rightarrow> Values"
  Encode :: "Values \<Rightarrow> string"
  ParseInt32 :: "string \<Rightarrow> error + 32 word"
  SprintSeconds :: "Duration \<Rightarrow> string"
  DurationString :: "Duration \<Rightarrow> string"
  clientGet :: "Duration \<Rightarrow> string \<Rightarrow> error + 'f Response"
  filepathBase :: "string \<Rightarrow> string"
  filepathJoin :: "string list \<Rightarrow> string"
  filepathSplitList :: "string \<Rightarrow> string list"
  filepathGlob :: "string \<Rightarrow> error + string list"
  profileParse :: "'f \<Rightarrow> error + 'a profile"
  CheckValid :: "'a profile \<Rightarrow> error option"
  Scale :: "'a profile \<Rightarrow> int \<Rightarrow> 'a profile"
  ScaleProfiles :: "'a profile list \<Rightarrow> error + 'a profile list"
  Merge :: "'a profile list \<Rightarrow> error + 'a profile"
  RemoveUninteresting :: "'a profile \<Rightarrow> 'a profile"
  profileWrite :: "'a profile \<Rightarrow> 'f \<Rightarrow> error option"

section \<open>setTmpDir\<close>

text \<open>
  The loop of \<^verbatim>\<open>setTmpDir\<close> over its two candidates: a directory that \<^verbatim>\<open>os.MkdirAll\<close>
  refuses is reported and skipped, the first one it accepts is returned.
\<close>

fun setTmpDir_loop ::
  "('a, 'f) world \<Rightarrow> string list \<Rightarrow> (string \<times> error option) \<times> ui_event list" where
  "setTmpDir_loop w [] = (([], Some ''failed to identify temp dir''), [])"
| "setTmpDir_loop w (tmpDir # rest) =
     (case MkdirAll w tmpDir of
        Some err \<Rightarrow>
          (let (r, out) = setTmpDir_loop w rest
           in (r, PrintErr [''Could not use temp dir '', tmpDir, '': '', err] # out))
      | None \<Rightarrow> ((tmpDir, None), []))"

definition setTmpDir :: "('a, 'f) world \<Rightarrow> (string \<times> error option) \<times> ui_event list" where
  "setTmpDir w =
     (let profileDir = Getenv w ''PPROF_TMPDIR''
      in if profileDir \<noteq> [] then ((profileDir, None), [])
         else setTmpDir_loop w [Getenv w ''HOME'' @ ''/pprof'', TempDir w])"

section \<open>unsourceMappings\<close>

text \<open>\<^verbatim>\<open>(*URL).IsAbs\<close> of \<^verbatim>\<open>net/url\<close>: the scheme is not empty.\<close>

definition IsAbs :: "URL \<Rightarrow> bool" where
  "IsAbs u = (Scheme u \<noteq> [])"

fun unsourceMappings_loop :: "('a, 'f) world \<Rightarrow> mapping list \<Rightarrow> mapping list" where
  "unsourceMappings_loop w [] = []"
| "unsourceMappings_loop w (m # ms) =
     (if BuildID m = [] then
        (case urlParse w (File m) of
           Inr u \<Rightarrow> if IsAbs u then m\<lparr>File := []\<rparr> else m
         | Inl err \<Rightarrow> m)
      else m) # unsourceMappings_loop w ms"

definition unsourceMappings :: "('a, 'f) world \<Rightarrow> 'a profile \<Rightarrow> 'a profile" where
  "unsourceMappings w p = p\<lparr>Mapping := unsourceMappings_loop w (Mapping p)\<rparr>"

section \<open>locateBinaries\<close>

text \<open>
  \<^verbatim>\<open>plugin.ObjTool\<close>: \<^verbatim>\<open>obj.Open(name, start, limit, offset)\<close> either fails or opens an
  object file, of which the code reads the build ID only (\<^verbatim>\<open>f.BuildID()\<close>): \<open>Inr\<close> holds it.
\<close>

type_synonym ObjTool = "string \<Rightarrow> 64 word \<Rightarrow> 64 word \<Rightarrow> 64 word \<Rightarrow> error + string"

text \<open>The search path: \<^verbatim>\<open>PPROF_BINARY_PATH\<close>, by default \<^verbatim>\<open>$HOME/pprof/binaries\<close>.\<close>

definition searchPath :: "('a, 'f) world \<Rightarrow> string" where
  "searchPath w =
     (let sp = Getenv w ''PPROF_BINARY_PATH''
      in if sp = [] then filepathJoin w [Getenv w ''HOME'', ''pprof'', ''binaries''] else sp)"

text \<open>The overrides of the source configuration, written into the first mapping only.\<close>

definition applyOverrides :: "source \<Rightarrow> nat \<Rightarrow> mapping \<Rightarrow> mapping" where
  "applyOverrides s i m =
     (if i = 0 then
        (let m1 = (if ExecName s \<noteq> [] then m\<lparr>File := ExecName s\<rparr> else m)
         in if sourceBuildID s \<noteq> [] then m1\<lparr>BuildID := sourceBuildID s\<rparr> else m1)
      else m)"

definition baseNameOf :: "('a, 'f) world \<Rightarrow> mapping \<Rightarrow> string" where
  "baseNameOf w m = (if File m \<noteq> [] then filepathBase w (File m) else [])"

text \<open>The candidate file names of one entry of the search path, in the order they are tried.\<close>

definition fileNames :: "('a, 'f) world \<Rightarrow> mapping \<Rightarrow> string \<Rightarrow> string \<Rightarrow> string list" where
  "fileNames w m baseName path =
     (if BuildID m \<noteq> [] then
        filepathJoin w [path, BuildID m, baseName] #
        (case filepathGlob w (filepathJoin w [path, BuildID m, ''*'']) of
           Inr matches \<Rightarrow> matches
         | Inl err \<Rightarrow> [])
      else []) @
     (if baseName \<noteq> [] then [filepathJoin w [path, baseName]] else [])"

definition mismatchMessage :: "string \<Rightarrow> string \<Rightarrow> string \<Rightarrow> ui_event" where
  "mismatchMessage name buildID fileBuildID =
     PrintErr [''Ignoring local file '' @ name @ '': build-id mismatch ('' @ buildID @
               '' != '' @ fileBuildID @ '')'']"

text \<open>
  The innermost loop, over the candidates of one path entry: \<open>Some name\<close> is the candidate
  accepted (\<^verbatim>\<open>m.File = name; continue mapping\<close>), \<open>None\<close> that the loop ran to its end.
\<close>

fun tryNames :: "ObjTool \<Rightarrow> mapping \<Rightarrow> string list \<Rightarrow> string option \<times> ui_event list" where
  "tryNames obj m [] = (None, [])"
| "tryNames obj m (name # names) =
     (case obj name (Start m) (Limit m) (Offset m) of
        Inr fileBuildID \<Rightarrow>
          if BuildID m \<noteq> [] \<and> BuildID m \<noteq> fileBuildID then
            (let (r, out) = tryNames obj m names
             in (r, mismatchMessage name (BuildID m) fileBuildID # out))
          else (Some name, [])
      | Inl err \<Rightarrow> tryNames obj m names)"

text \<open>The loop over the entries of the search path, for one mapping.\<close>

fun tryPaths ::
  "('a, 'f) world \<Rightarrow> ObjTool \<Rightarrow> mapping \<Rightarrow> string \<Rightarrow> string list \<Rightarrow> mapping \<times> ui_event list" where
  "tryPaths w obj m baseName [] = (m, [])"
| "tryPaths w obj m baseName (path # paths) =
     (case tryNames obj m (fileNames w m baseName path) of
        (Some name, out) \<Rightarrow> (m\<lparr>File := name\<rparr>, out)
      | (None, out) \<Rightarrow>
          (let (m', out') = tryPaths w obj m baseName paths in (m', out @ out')))"

text \<open>The body of the loop over the mappings, for the mapping at index \<open>i\<close>.\<close>

definition locateMapping ::
  "('a, 'f) world \<Rightarrow> source \<Rightarrow> ObjTool \<Rightarrow> nat \<Rightarrow> mapping \<Rightarrow> mapping \<times> ui_event list" where
  "locateMapping w s obj i m =
     (let m1 = applyOverrides s i m
      in tryPaths w obj m1 (baseNameOf w m1) (filepathSplitList w (searchPath w)))"

fun locateBinaries_loop ::
  "('a, 'f) world \<Rightarrow> source \<Rightarrow> ObjTool \<Rightarrow> nat \<Rightarrow> mapping list \<Rightarrow> mapping list \<times> ui_event list" where
  "locateBinaries_loop w s obj i [] = ([], [])"
| "locateBinaries_loop w s obj i (m # ms) =
     (let (m', out) = locateMapping w s obj i m;
          (ms', out') = locateBinaries_loop w s obj (Suc i) ms
      in (m' # ms', out @ out'))"

definition locateBinaries ::
  "('a, 'f) world \<Rightarrow> 'a profile \<Rightarrow> source \<Rightarrow> ObjTool \<Rightarrow> 'a profile \<times> ui_event list" where
  "locateBinaries w p s obj =
     (let (ms, out) = locateBinaries_loop w s obj 0 (Mapping p)
      in (p\<lparr>Mapping := ms\<rparr>, out))"

section \<open>collectMappingSources\<close>

text \<open>
  The loop adds one entry per mapping under the mapping's key, and writes the source into the
  file field of a mapping that has neither build ID nor file. It returns the map and the
  mappings as it leaves them.
\<close>

fun collectMappingSources_loop ::
  "string \<Rightarrow> mapping list \<Rightarrow> (string \<rightharpoonup> sourceEntry list) \<Rightarrow>
   mapping list \<times> (string \<rightharpoonup> sourceEntry list)" where
  "collectMappingSources_loop src [] ms = ([], ms)"
| "collectMappingSources_loop src (m # rest) ms =
     (let entry = (src, Start m);
          key = (if BuildID m = [] then File m else BuildID m);
          m' = (if key = [] then m\<lparr>File := src\<rparr> else m);
          key' = (if key = [] then src else key);
          ms' = ms(key' \<mapsto> (case ms key' of None \<Rightarrow> [] | Some l \<Rightarrow> l) @ [entry]);
          (rest', ms'') = collectMappingSources_loop src rest ms'
      in (m' # rest', ms''))"

definition collectMappingSources :: "'a profile \<Rightarrow> string \<Rightarrow> MappingSources \<times> 'a profile" where
  "collectMappingSources p src =
     (let (ms', m) = collectMappingSources_loop src (Mapping p) Map.empty
      in (Some m, p\<lparr>Mapping := ms'\<rparr>))"

section \<open>The source resolver: adjustURL, httpGet, fetchURL, isPerfFile, convertPerfData, fetch\<close>

text \<open>\<^verbatim>\<open>Values.Get\<close> and \<^verbatim>\<open>Values.Set\<close> of \<^verbatim>\<open>net/url\<close>.\<close>

definition valuesGet :: "Values \<Rightarrow> string \<Rightarrow> string" where
  "valuesGet v key = (case v key of Some (x # xs) \<Rightarrow> x | _ \<Rightarrow> [])"

definition valuesSet :: "Values \<Rightarrow> string \<Rightarrow> string \<Rightarrow> Values" where
  "valuesSet v key val = v(key \<mapsto> [val])"

text \<open>
  The first part of \<^verbatim>\<open>adjustURL\<close>: the source parsed as a URL, once more behind
  \<^verbatim>\<open>http://\<close> when it has a scheme other than \<^verbatim>\<open>file\<close> and no host; \<open>None\<close> when the
  function returns the empty string.
\<close>

definition resolveURL :: "('a, 'f) world \<Rightarrow> string \<Rightarrow> URL option" where
  "resolveURL w src =
     (let r = urlParse w src;
          r' = (case r of
                  Inl err \<Rightarrow> urlParse w (''http://'' @ src)
                | Inr u \<Rightarrow>
                    if Host u = [] \<and> Scheme u \<noteq> [] \<and> Scheme u \<noteq> ''file''
                    then urlParse w (''http://'' @ src) else r)
      in case r' of
           Inl err \<Rightarrow> None
         | Inr u \<Rightarrow> if Host u = [] then None else Some u)"

text \<open>
  The duration after the block that applies it to the query: a positive duration is kept,
  otherwise a \<^verbatim>\<open>seconds\<close> parameter of the URL that \<^verbatim>\<open>strconv.ParseInt(_, 10, 32)\<close> accepts
  replaces it.
\<close>

definition adjustDuration :: "('a, 'f) world \<Rightarrow> Values \<Rightarrow> Duration \<Rightarrow> Duration" where
  "adjustDuration w values duration =
     (if 0 <s duration then duration
      else (let urlSeconds = valuesGet values ''seconds''
            in if urlSeconds \<noteq> [] then
                 (case ParseInt32 w urlSeconds of
                    Inr us \<Rightarrow> scast us * Second
                  | Inl err \<Rightarrow> duration)
               else duration))"

definition adjustValues :: "('a, 'f) world \<Rightarrow> Values \<Rightarrow> Duration \<Rightarrow> Values" where
  "adjustValues w values duration =
     (if 0 <s duration then valuesSet values ''seconds'' (SprintSeconds w duration) else values)"

text \<open>The timeout after the block \<^verbatim>\<open>if timeout <= 0 { ... }\<close>.\<close>

definition adjustTimeout :: "Duration \<Rightarrow> Duration \<Rightarrow> Duration" where
  "adjustTimeout duration timeout =
     (if timeout \<le>s 0 then
        (if 0 <s duration then duration + sdiv64 duration 2 else 60 * Second)
      else timeout)"

definition adjustURL ::
  "('a, 'f) world \<Rightarrow> string \<Rightarrow> Duration \<Rightarrow> Duration \<Rightarrow> string \<times> Duration" where
  "adjustURL w src duration timeout =
     (case resolveURL w src of
        None \<Rightarrow> ([], 0)
      | Some u \<Rightarrow>
          (let values = ParseQuery w (RawQuery u);
               values' = adjustValues w values duration;
               duration' = adjustDuration w values duration;
               timeout' = adjustTimeout duration' timeout
           in (urlString w (u\<lparr>RawQuery := Encode w values'\<rparr>), timeout')))"

text \<open>
  \<^verbatim>\<open>httpGet\<close>: a client whose transport has \<^verbatim>\<open>ResponseHeaderTimeout\<close> set, then
  \<^verbatim>\<open>client.Get(url)\<close>.
\<close>

definition ResponseHeaderTimeout :: "Duration \<Rightarrow> Duration" where
  "ResponseHeaderTimeout timeout = timeout + 5 * Second"

definition httpGet :: "('a, 'f) world \<Rightarrow> string \<Rightarrow> Duration \<Rightarrow> error + 'f Response" where
  "httpGet w url timeout = clientGet w (ResponseHeaderTimeout timeout) url"

definition fetchURL :: "('a, 'f) world \<Rightarrow> string \<Rightarrow> Duration \<Rightarrow> error + 'f" where
  "fetchURL w src timeout =
     (case httpGet w src timeout of
        Inl err \<Rightarrow> Inl (''http fetch '' @ src @ '': '' @ err)
      | Inr resp \<Rightarrow>
          if StatusCode resp \<noteq> 200 then Inl (''server response: '' @ Status resp)
          else Inr (RespBody resp))"

text \<open>\<open>fileRead w f n\<close> is the buffer of \<open>n\<close> bytes after \<^verbatim>\<open>f.Read\<close> has filled it.\<close>

definition isPerfFile :: "('a, 'f) world \<Rightarrow> string \<Rightarrow> bool" where
  "isPerfFile w path =
     (case osOpen w path of
        Inl openErr \<Rightarrow> False
      | Inr sourceFile \<Rightarrow>
          (case fileRead w sourceFile (length ''PERFILE2'') of
             Inl readErr \<Rightarrow> False
           | Inr actualHeader \<Rightarrow> actualHeader = ''PERFILE2''))"

definition convertPerfData :: "('a, 'f) world \<Rightarrow> string \<Rightarrow> (error + 'f) \<times> ui_event list" where
  "convertPerfData w perfPath =
     (let out = [Print [''Converting '' @ perfPath @
                        '' to a profile.proto... (May take a few minutes)'']]
      in case newTempFile w (TempDir w) ''pprof_'' ''.pb.gz'' of
           Inl err \<Rightarrow> (Inl err, out)
         | Inr prof \<Rightarrow>
             (case runCommand w ''perf_to_profile'' [perfPath, fileName w prof] of
                Some err \<Rightarrow>
                  (Inl (''failed to convert perf.data file. '' @
                        ''Try github.com/google/perf_data_converter: '' @ err), out)
              | None \<Rightarrow> (Inr prof, out)))"

text \<open>
  \<^verbatim>\<open>fetch\<close> returns \<^verbatim>\<open>(p, src, err)\<close>; \<^verbatim>\<open>p\<close> and \<^verbatim>\<open>err\<close> are the sum (a profile with
  a nil error, or an error), \<^verbatim>\<open>src\<close> the second component.
\<close>

definition fetch ::
  "('a, 'f) world \<Rightarrow> string \<Rightarrow> Duration \<Rightarrow> Duration \<Rightarrow>
   ((error + 'a profile) \<times> string) \<times> ui_event list" where
  "fetch w source duration timeout =
     (let (sourceURL, timeout') = adjustURL w source duration timeout;
          (f, src, out) =
            (if sourceURL \<noteq> [] then
               (fetchURL w sourceURL timeout', sourceURL,
                Print [''Fetching profile over HTTP from '' @ sourceURL] #
                (if 0 <s duration
                 then [Print [''Please wait... ('' @ DurationString w duration @ '')'']]
                 else []))
             else if isPerfFile w source then
               (let (f', out') = convertPerfData w source in (f', [], out'))
             else (osOpen w source, [], []))
      in case f of
           Inl err \<Rightarrow> ((Inl err, src), out)
         | Inr f' \<Rightarrow> ((profileParse w f', src), out))"

section \<open>grabProfile\<close>

text \<open>
  \<^verbatim>\<open>plugin.Fetcher\<close>: \<^verbatim>\<open>Fetch(src, duration, timeout)\<close> returns \<^verbatim>\<open>(p, src, err)\<close>. The code
  tests \<^verbatim>\<open>err\<close> and \<^verbatim>\<open>p == nil\<close> separately, so the result is the Go triple. The parameter
  \<^verbatim>\<open>fetcher\<close> may be nil: it is an option.
\<close>

type_synonym 'a Fetcher =
  "string \<Rightarrow> Duration \<Rightarrow> Duration \<Rightarrow> 'a profile option \<times> string \<times> error option"

text \<open>
  The result of \<^verbatim>\<open>grabProfile\<close>: \<open>Inl err\<close> is a return with \<^verbatim>\<open>err != nil\<close> (its only
  caller reads no other result then), \<open>Inr (p, msrc, remote)\<close> a return with a nil error.
\<close>

type_synonym 'a grabbed = "error + ('a profile \<times> MappingSources \<times> bool)"

text \<open>From \<^verbatim>\<open>p.CheckValid()\<close> to the end of \<^verbatim>\<open>grabProfile\<close>.\<close>

definition grabProfile_checked ::
  "('a, 'f) world \<Rightarrow> source \<Rightarrow> int \<Rightarrow> ObjTool \<Rightarrow> 'a profile \<Rightarrow> string \<Rightarrow>
   'a grabbed \<times> ui_event list" where
  "grabProfile_checked w s scl obj p src =
     (case CheckValid w p of
        Some err \<Rightarrow> (Inl err, [])
      | None \<Rightarrow>
          (let p1 = Scale w p scl;
               (p2, out) = locateBinaries w p1 s obj
           in if src \<noteq> [] then
                (let (msrc, p3) = collectMappingSources p2 src in (Inr (p3, msrc, True), out))
              else (Inr (p2, None, False), out)))"

text \<open>The built-in resolver, as \<^verbatim>\<open>grabProfile\<close> calls it when \<^verbatim>\<open>p\<close> is nil.\<close>

definition grabProfile_builtin ::
  "('a, 'f) world \<Rightarrow> source \<Rightarrow> string \<Rightarrow> int \<Rightarrow> ObjTool \<Rightarrow> Duration \<Rightarrow> Duration \<Rightarrow>
   'a grabbed \<times> ui_event list" where
  "grabProfile_builtin w s src0 scl obj duration timeout =
     (case fetch w src0 duration timeout of
        ((Inl err, src), out) \<Rightarrow> (Inl err, out)
      | ((Inr p, src), out) \<Rightarrow>
          (let (r, out') = grabProfile_checked w s scl obj p src in (r, out @ out')))"

definition grabProfile ::
  "('a, 'f) world \<Rightarrow> source \<Rightarrow> string \<Rightarrow> int \<Rightarrow> 'a Fetcher option \<Rightarrow> ObjTool \<Rightarrow>
   'a grabbed \<times> ui_event list" where
  "grabProfile w s src0 scl fetcher obj =
     (let duration = Seconds s * Second;
          timeout = Timeout s * Second;
          (p, src, err) = (case fetcher of
                             Some f \<Rightarrow> f src0 duration timeout
                           | None \<Rightarrow> (None, [], None))
      in case err of
           Some e \<Rightarrow> (Inl e, [])
         | None \<Rightarrow>
             (case p of
                None \<Rightarrow> grabProfile_builtin w s src0 scl obj duration timeout
              | Some p' \<Rightarrow> grabProfile_checked w s scl obj p' src))"

section \<open>combineProfiles\<close>

text \<open>
  One round of the outer loop over \<^verbatim>\<open>msrcs\<close>: every key \<open>m\<close> of \<open>ms\<close> gets its list
  appended to what \<open>msrc\<close> holds for it (\<^verbatim>\<open>msrc[m] = append(msrc[m], s...)\<close>). The keys of a
  map are distinct, so the order in which Go ranges over them does not matter. Ranging over a
  nil map does nothing.
\<close>

definition appendSources ::
  "(string \<rightharpoonup> sourceEntry list) \<Rightarrow> MappingSources \<Rightarrow> (string \<rightharpoonup> sourceEntry list)" where
  "appendSources msrc ms =
     (case ms of
        None \<Rightarrow> msrc
      | Some ms' \<Rightarrow>
          (\<lambda>m. case ms' m of
                 None \<Rightarrow> msrc m
               | Some s \<Rightarrow> Some ((case msrc m of None \<Rightarrow> [] | Some l \<Rightarrow> l) @ s)))"

text \<open>
  \<^verbatim>\<open>measurement.ScaleProfiles\<close> changes the profiles in place; \<open>ScaleProfiles w\<close> returns them
  as it leaves them. The result \<^verbatim>\<open>(p, msrc, err)\<close> is a sum: \<^verbatim>\<open>nil, nil, err\<close> or
  \<^verbatim>\<open>p, msrc, nil\<close>.
\<close>

definition combineProfiles ::
  "('a, 'f) world \<Rightarrow> 'a profile list \<Rightarrow> MappingSources list \<Rightarrow>
   error + ('a profile \<times> MappingSources)" where
  "combineProfiles w profiles msrcs =
     (case ScaleProfiles w profiles of
        Inl err \<Rightarrow> Inl err
      | Inr profiles' \<Rightarrow>
          (case Merge w profiles' of
             Inl err \<Rightarrow> Inl err
           | Inr p \<Rightarrow> Inr (p, Some (foldl appendSources Map.empty msrcs))))"

section \<open>concurrentGrab\<close>

text \<open>
  The second loop of \<^verbatim>\<open>concurrentGrab\<close>, over the slots after \<^verbatim>\<open>wg.Wait()\<close>: a failed
  task is reported and dropped, the others are collected in slot order.
\<close>

fun collectSlots ::
  "(profileSource \<times> 'a grabbed) list \<Rightarrow> bool \<Rightarrow> 'a profile list \<Rightarrow> MappingSources list \<Rightarrow>
   ui_event list \<Rightarrow> bool \<times> 'a profile list \<times> MappingSources list \<times> ui_event list" where
  "collectSlots [] save profiles msrcs out = (save, profiles, msrcs, out)"
| "collectSlots ((s, r) # rest) save profiles msrcs out =
     (case r of
        Inl err \<Rightarrow>
          collectSlots rest save profiles msrcs (out @ [PrintErr [addr s @ '': '' @ err]])
      | Inr (p, msrc, remote) \<Rightarrow>
          collectSlots rest (save \<or> remote) (profiles @ [p]) (msrcs @ [msrc]) out)"

text \<open>
  The goroutines each run \<^verbatim>\<open>grabProfile\<close> on their own slot and share no other state, so
  after the barrier slot \<open>i\<close> holds the result of \<open>grabProfile\<close> on task \<open>i\<close>. What the tasks
  print reaches the UI in an order the scheduler decides; the model lists it in slot order.
  The result is the Go tuple \<^verbatim>\<open>(p, msrc, save, count, err)\<close>.
\<close>

type_synonym 'a grabResult =
  "'a profile option \<times> MappingSources \<times> bool \<times> nat \<times> error option"

definition concurrentGrab ::
  "('a, 'f) world \<Rightarrow> profileSource list \<Rightarrow> 'a Fetcher option \<Rightarrow> ObjTool \<Rightarrow>
   'a grabResult \<times> ui_event list" where
  "concurrentGrab w sources fetcher obj =
     (let results = map (\<lambda>s. grabProfile w (psource s) (addr s) (scale s) fetcher obj) sources;
          (save, profiles, msrcs, out) =
            collectSlots (zip sources (map fst results)) False [] [] (concat (map snd results))
      in if length profiles = 0 then ((None, None, False, 0, None), out)
         else
           (case combineProfiles w profiles msrcs of
              Inl err \<Rightarrow> ((None, None, False, 0, Some err), out)
            | Inr (p, msrc) \<Rightarrow> ((Some p, msrc, save, length profiles, None), out)))"

section \<open>chunkedGrab\<close>

definition chunkSize :: nat where
  "chunkSize = 64"

text \<open>The slice expression \<^verbatim>\<open>sources[start:end]\<close>.\<close>

definition slice :: "'b list \<Rightarrow> nat \<Rightarrow> nat \<Rightarrow> 'b list" where
  "slice xs start end' = take (end' - start) (drop start xs)"

text \<open>
  The loop of \<^verbatim>\<open>chunkedGrab\<close>, from the state \<^verbatim>\<open>(start, p, msrc, save, count)\<close> on; \<open>out\<close>
  is what the UI has received so far.
\<close>

function chunkedGrab_loop ::
  "('a, 'f) world \<Rightarrow> profileSource list \<Rightarrow> 'a Fetcher option \<Rightarrow> ObjTool \<Rightarrow> nat \<Rightarrow>
   'a profile option \<Rightarrow> MappingSources \<Rightarrow> bool \<Rightarrow> nat \<Rightarrow> ui_event list \<Rightarrow>
   'a grabResult \<times> ui_event list" where
  "chunkedGrab_loop w sources fetcher obj start p msrc save count out =
     (if start < length sources then
        (let end' = (if start + chunkSize > length sources then length sources
                     else start + chunkSize);
             ((chunkP, chunkMsrc, chunkSave, chunkCount, chunkErr), chunkOut) =
               concurrentGrab w (slice sources start end') fetcher obj;
             out' = out @ chunkOut
         in case chunkErr of
              Some err \<Rightarrow> ((None, None, False, 0, Some err), out')
            | None \<Rightarrow>
                (case chunkP of
                   None \<Rightarrow>
                     chunkedGrab_loop w sources fetcher obj (start + chunkSize)
                       p msrc save count out'
                 | Some cp \<Rightarrow>
                     (case p of
                        None \<Rightarrow>
                          chunkedGrab_loop w sources fetcher obj (start + chunkSize)
                            (Some cp) chunkMsrc chunkSave chunkCount out'
                      | Some p0 \<Rightarrow>
                          (case combineProfiles w [p0, cp] [msrc, chunkMsrc] of
                             Inl err \<Rightarrow> ((None, None, False, 0, Some err), out')
                           | Inr (p', msrc') \<Rightarrow>
                               chunkedGrab_loop w sources fetcher obj (start + chunkSize)
                                 (Some p') msrc' (if chunkSave then True else save)
                                 (count + chunkCount) out'))))
      else ((p, msrc, save, count, None), out))"
  by pat_completeness auto
termination
  by (relation "measure (\<lambda>(w, sources, fetcher, obj, start, rest). length sources - start)")
     (auto simp: chunkSize_def)

declare chunkedGrab_loop.simps [simp del]

definition chunkedGrab ::
  "('a, 'f) world \<Rightarrow> profileSource list \<Rightarrow> 'a Fetcher option \<Rightarrow> ObjTool \<Rightarrow>
   'a grabResult \<times> ui_event list" where
  "chunkedGrab w sources fetcher obj =
     chunkedGrab_loop w sources fetcher obj 0 None None False 0 []"

section \<open>fetchProfiles\<close>

text \<open>
  \<^verbatim>\<open>plugin.Options\<close>: the fetcher (may be nil), the object tool and the symbolizer.
  \<^verbatim>\<open>o.Sym.Symbolize(mode, srcs, p)\<close> changes \<^verbatim>\<open>p\<close> in place and returns an error: \<open>Inr\<close>
  holds the profile as a successful call leaves it.
\<close>

record 'a Options =
  Fetch :: "'a Fetcher option"
  Obj :: ObjTool
  Sym :: "string \<Rightarrow> MappingSources \<Rightarrow> 'a profile \<Rightarrow> error + 'a profile"

text \<open>Decimal digits of a number, as \<^verbatim>\<open>%d\<close> prints it.\<close>

fun showNat :: "nat \<Rightarrow> string" where
  "showNat n =
     (if n < 10 then [char_of (48 + n)] else showNat (n div 10) @ [char_of (48 + n mod 10)])"

declare showNat.simps [simp del]

text \<open>The outcome of a call: it returns, or a nil pointer is dereferenced and the program ends.\<close>

datatype 'r outcome = Returns 'r | Panics

text \<open>Saving a copy of the merged profile: the block \<^verbatim>\<open>if save { ... }\<close> after its first test.\<close>

definition saveProfile :: "('a, 'f) world \<Rightarrow> 'a profile \<Rightarrow> string \<Rightarrow> ui_event list" where
  "saveProfile w p dir =
     (let prefix0 = ''pprof.'';
          prefix1 = (case Mapping p of
                       m0 # ms \<Rightarrow>
                         if File m0 \<noteq> [] then prefix0 @ filepathBase w (File m0) @ ''.''
                         else prefix0
                     | [] \<Rightarrow> prefix0);
          prefix = foldl (\<lambda>pre t. pre @ t @ ''.'') prefix1 (SampleType p)
      in case newTempFile w dir prefix ''.pb.gz'' of
           Inr tempFile \<Rightarrow>
             (case profileWrite w p tempFile of
                None \<Rightarrow> [PrintErr [''Saved profile in '', fileName w tempFile]]
              | Some err \<Rightarrow> [PrintErr [''Could not save profile: '', err]])
         | Inl err \<Rightarrow> [PrintErr [''Could not save profile: '', err]])"

text \<open>The tasks of a run: the sources with scale \<open>1\<close>, then the base sources with scale \<open>-1\<close>.\<close>

definition tasksOf :: "source \<Rightarrow> profileSource list" where
  "tasksOf s =
     map (\<lambda>src. \<lparr>addr = src, psource = s, scale = 1\<rparr>) (Sources s) @
     map (\<lambda>src. \<lparr>addr = src, psource = s, scale = - 1\<rparr>) (Base s)"

text \<open>
  \<^verbatim>\<open>fetchProfiles\<close> returns \<^verbatim>\<open>(p, err)\<close>. Past the test of \<^verbatim>\<open>cnt\<close> it dereferences
  \<^verbatim>\<open>p\<close>, which would end the program were \<^verbatim>\<open>p\<close> nil.
\<close>

definition fetchProfiles ::
  "('a, 'f) world \<Rightarrow> source \<Rightarrow> 'a Options \<Rightarrow>
   ('a profile option \<times> error option) outcome \<times> ui_event list" where
  "fetchProfiles w s opts =
     (let sources = tasksOf s;
          ((p, msrcs, save, cnt, err), out) = chunkedGrab w sources (Fetch opts) (Obj opts)
      in case err of
           Some e \<Rightarrow> (Returns (None, Some e), out)
         | None \<Rightarrow>
             if cnt = 0 then (Returns (None, Some ''failed to fetch any profiles''), out)
             else
               (let out1 = out @
                      (if length sources \<noteq> cnt then
                         [PrintErr [''fetched '' @ showNat cnt @ '' profiles out of '' @
                                    showNat (length sources)]]
                       else [])
                in case p of
                     None \<Rightarrow> (Panics, out1)
                   | Some p0 \<Rightarrow>
                       (case Sym opts (Symbolize s) msrcs p0 of
                          Inl e \<Rightarrow> (Returns (None, Some e), out1)
                        | Inr p1 \<Rightarrow>
                            (let p2 = unsourceMappings w (RemoveUninteresting w p1);
                                 ((dir, dirErr), out2) =
                                   (if save then setTmpDir w else (([], None), []))
                             in case dirErr of
                                  Some e \<Rightarrow> (Returns (None, Some e), out1 @ out2)
                                | None \<Rightarrow>
                                    (let out3 = out1 @ out2 @
                                           (if save then saveProfile w p2 dir else [])
                                     in case CheckValid w p2 of
                                          Some e \<Rightarrow> (Returns (None, Some e), out3)
                                        | None \<Rightarrow> (Returns (Some p2, None), out3))))))"

section \<open>Concrete environments\<close>

text \<open>
  A small environment on which the definitions can be run: a relative path is a file that
  holds its own name and parses to a profile with that name as its sample type, an absolute
  path is a file that does not exist, a URL is a source that
  starts with \<^verbatim>\<open>http://\<close> (host up to the next slash, the rest kept as it is), no directory
  is refused, the network is down, and profiles merge when their sample types agree.
\<close>

definition parseSimple :: "string \<Rightarrow> error + URL" where
  "parseSimple s =
     (if take 7 s = ''http://''
      then Inr \<lparr>Scheme = ''http'', Host = takeWhile (\<lambda>c. c \<noteq> CHR ''/'') (drop 7 s),
                RawQuery = [], Path = dropWhile (\<lambda>c. c \<noteq> CHR ''/'') (drop 7 s)\<rparr>
      else Inr \<lparr>Scheme = [], Host = [], RawQuery = [], Path = s\<rparr>)"

definition mergeSimple :: "unit profile list \<Rightarrow> error + unit profile" where
  "mergeSimple ps =
     (case ps of
        [] \<Rightarrow> Inl ''no profiles to merge''
      | p # rest \<Rightarrow>
          if list_all (\<lambda>q. SampleType q = SampleType p) rest
          then Inr (p\<lparr>Mapping := concat (map Mapping ps)\<rparr>)
          else Inl ''incompatible sample types'')"

definition world0 :: "(unit, string) world" where
  "world0 =
     \<lparr>Getenv = (\<lambda>k. if k = ''HOME'' then ''/home/u'' else []),
      TempDir = ''/tmp'',
      MkdirAll = (\<lambda>d. None),
      osOpen = (\<lambda>path. if take 1 path = ''/'' then Inl (''open '' @ path @ '': no such file'')
                        else Inr path),
      fileRead = (\<lambda>f n. Inr (take n f)),
      fileName = (\<lambda>f. f),
      newTempFile = (\<lambda>dir pre suf. Inr (dir @ ''/'' @ pre @ ''0'' @ suf)),
      runCommand = (\<lambda>cmd args. Some ''executable file not found''),
      urlParse = parseSimple,
      urlString = (\<lambda>u. if Scheme u = [] then Path u
                       else Scheme u @ ''://'' @ Host u @ Path u),
      ParseQuery = (\<lambda>q. Map.empty),
      Encode = (\<lambda>v. []),
      ParseInt32 = (\<lambda>s. Inl ''invalid syntax''),
      SprintSeconds = (\<lambda>d. ''30''),
      DurationString = (\<lambda>d. ''30s''),
      clientGet = (\<lambda>t url. Inl ''connection refused''),
      filepathBase = (\<lambda>path. path),
      filepathJoin = (\<lambda>parts. case parts of
                                  [] \<Rightarrow> []
                                | part # rest \<Rightarrow> part @ concat (map (\<lambda>r. ''/'' @ r) rest)),
      filepathSplitList = (\<lambda>path. [path]),
      filepathGlob = (\<lambda>pat. Inr []),
      profileParse = (\<lambda>f. Inr \<lparr>SampleType = [f], Mapping = [], Body = ()\<rparr>),
      CheckValid = (\<lambda>p. None),
      Scale = (\<lambda>p k. p),
      ScaleProfiles = (\<lambda>ps. Inr ps),
      Merge = mergeSimple,
      RemoveUninteresting = (\<lambda>p. p),
      profileWrite = (\<lambda>p f. None)\<rparr>"

text \<open>An environment whose \<^verbatim>\<open>PPROF_TMPDIR\<close> names a directory that cannot be created.\<close>

definition tmpWorld :: "(unit, string) world" where
  "tmpWorld =
     world0\<lparr>Getenv := (\<lambda>k. if k = ''PPROF_TMPDIR'' then ''/proc/none''
                           else if k = ''HOME'' then ''/home/u'' else []),
            MkdirAll := (\<lambda>d. if d = ''/proc/none''
                              then Some ''mkdir /proc/none: no such file or directory''
                              else None)\<rparr>"

text \<open>A profile with a mapping that carries a source URL, one with a build ID, one local.\<close>

definition prof3 :: "unit profile" where
  "prof3 =
     \<lparr>SampleType = [''cpu''],
      Mapping =
        [\<lparr>Start = 0, Limit = 4096, Offset = 0, File = ''http://host/profile'', BuildID = []\<rparr>,
         \<lparr>Start = 4096, Limit = 8192, Offset = 0, File = ''http://host/profile'',
          BuildID = ''abc''\<rparr>,
         \<lparr>Start = 8192, Limit = 12288, Offset = 0, File = ''/usr/bin/app'', BuildID = []\<rparr>],
      Body = ()\<rparr>"

text \<open>
  An environment in which \<^verbatim>\<open>http://host/profile?seconds=30\<close> parses with its query, and
  \<^verbatim>\<open>strconv.ParseInt\<close> reads \<^verbatim>\<open>30\<close>.
\<close>

definition urlWorld :: "(unit, string) world" where
  "urlWorld =
     world0\<lparr>urlParse := (\<lambda>s. if s = ''http://host/profile?seconds=30''
                               then Inr \<lparr>Scheme = ''http'', Host = ''host'',
                                         RawQuery = ''seconds=30'', Path = ''/profile''\<rparr>
                               else parseSimple s),
            ParseQuery := (\<lambda>q. if q = ''seconds=30'' then [''seconds'' \<mapsto> [''30'']]
                                else Map.empty),
            ParseInt32 := (\<lambda>s. if s = ''30'' then Inr 30 else Inl ''invalid syntax'')\<rparr>"

text \<open>Two provenance maps that share the key \<^verbatim>\<open>abc\<close>, and the profile of a file \<^verbatim>\<open>cpu.pb\<close>.\<close>

definition msrcA :: MappingSources where
  "msrcA = Some [''abc'' \<mapsto> [(''http://a/profile'', 0), (''http://a/profile'', 4096)]]"

definition msrcB :: MappingSources where
  "msrcB = Some [''abc'' \<mapsto> [(''http://b/profile'', 0)],
                 ''/bin/ls'' \<mapsto> [(''http://b/profile'', 8192)]]"

definition profCpu :: "unit profile" where
  "profCpu = \<lparr>SampleType = [''cpu.pb''], Mapping = [], Body = ()\<rparr>"




definition cfg0 :: source where
  "cfg0 = \<lparr>Sources = [], Base = [], ExecName = [], sourceBuildID = [], Seconds = 0,
           Timeout = 0, Symbolize = []\<rparr>"

text \<open>
  An object tool that opens nothing, a fetcher that fails, a fetcher that declines (no profile
  and no error), and the profile of a file \<^verbatim>\<open>heap.pb\<close>.
\<close>

definition noObj :: ObjTool where
  "noObj name start limit offset = Inl (''open '' @ name @ '': no such file'')"

definition failingFetcher :: "unit Fetcher" where
  "failingFetcher src duration timeout = (None, [], Some ''fetcher failed'')"

definition decliningFetcher :: "unit Fetcher" where
  "decliningFetcher src duration timeout = (None, [], None)"

definition profHeap :: "unit profile" where
  "profHeap = \<lparr>SampleType = [''heap.pb''], Mapping = [], Body = ()\<rparr>"

text \<open>
  Three tasks of the configuration \<open>cfg0\<close>: two files that exist and one that does not; and a
  fetcher that serves \<open>profCpu\<close> from a URL.
\<close>

definition taskCpu :: profileSource where
  "taskCpu = \<lparr>addr = ''cpu.pb'', psource = cfg0, scale = 1\<rparr>"

definition taskHeap :: profileSource where
  "taskHeap = \<lparr>addr = ''heap.pb'', psource = cfg0, scale = 1\<rparr>"

definition taskMissing :: profileSource where
  "taskMissing = \<lparr>addr = ''/missing.pb'', psource = cfg0, scale = 1\<rparr>"

definition servingFetcher :: "unit Fetcher" where
  "servingFetcher src duration timeout = (Some profCpu, ''http://host/'' @ src, None)"

text \<open>
  Task lists that cross the chunk size: 64 tasks for \<^verbatim>\<open>cpu.pb\<close> followed by one for
  \<^verbatim>\<open>heap.pb\<close>; 65 tasks for \<^verbatim>\<open>cpu.pb\<close>; and 64 for \<^verbatim>\<open>cpu.pb\<close>, 64 for \<^verbatim>\<open>heap.pb\<close> and one
  more for \<^verbatim>\<open>cpu.pb\<close>.
\<close>

definition tasks65 :: "profileSource list" where
  "tasks65 = replicate 64 taskCpu @ [taskHeap]"

definition tasks65ok :: "profileSource list" where
  "tasks65ok = replicate 64 taskCpu @ [taskCpu]"

definition tasks129 :: "profileSource list" where
  "tasks129 = replicate 64 taskCpu @ replicate 64 taskHeap @ [taskCpu]"

text \<open>
  A source configuration whose source and base files do not exist, and options without a
  fetcher, with a symbolizer that leaves the profile as it is.
\<close>

definition cfgMissing :: source where
  "cfgMissing = cfg0\<lparr>Sources := [''/missing.pb''], Base := [''/base.pb'']\<rparr>"

definition opts0 :: "unit Options" where
  "opts0 = \<lparr>Fetch = None, Obj = noObj, Sym = (\<lambda>mode msrcs p. Inr p)\<rparr>"




section \<open>Vocabulary of the properties\<close>

text \<open>The entries a provenance map holds under a key (none for a nil map or a missing key).\<close>

definition entriesAt :: "string \<Rightarrow> MappingSources \<Rightarrow> sourceEntry list" where
  "entriesAt k ms =
     (case ms of
        None \<Rightarrow> []
      | Some f \<Rightarrow> (case f k of None \<Rightarrow> [] | Some l \<Rightarrow> l))"

definition hasKey :: "string \<Rightarrow> MappingSources \<Rightarrow> bool" where
  "hasKey k ms = (case ms of None \<Rightarrow> False | Some f \<Rightarrow> f k \<noteq> None)"


definition matches :: "ObjTool \<Rightarrow> mapping \<Rightarrow> string \<Rightarrow> bool" where
  "matches obj m name = (obj name (Start m) (Limit m) (Offset m) = Inr (BuildID m))"

text \<open>
  What the task of a slot returns, and the results of the tasks of a chunk that returned no
  error, in slot order.
\<close>

definition grabTask ::
  "('a, 'f) world \<Rightarrow> 'a Fetcher option \<Rightarrow> ObjTool \<Rightarrow> profileSource \<Rightarrow> 'a grabbed" where
  "grabTask w fetcher obj s = fst (grabProfile w (psource s) (addr s) (scale s) fetcher obj)"

definition survivors ::
  "('a, 'f) world \<Rightarrow> profileSource list \<Rightarrow> 'a Fetcher option \<Rightarrow> ObjTool \<Rightarrow>
   ('a profile \<times> MappingSources \<times> bool) list" where
  "survivors w sources fetcher obj =
     concat (map (\<lambda>s. case grabTask w fetcher obj s of Inl err \<Rightarrow> [] | Inr r \<Rightarrow> [r]) sources)"

text \<open>The success count of a result \<^verbatim>\<open>(p, msrc, save, count, err)\<close>.\<close>

definition countOf :: "'a grabResult \<Rightarrow> nat" where
  "countOf r = (case r of (p, msrc, save, count, err) \<Rightarrow> count)"

text \<open>A list cut into consecutive chunks of at most \<open>n\<close> elements.\<close>

function chunksOf :: "nat \<Rightarrow> 'b list \<Rightarrow> 'b list list" where
  "chunksOf n xs = (if n = 0 \<or> xs = [] then [] else take n xs # chunksOf n (drop n xs))"
  by pat_completeness auto
termination
  by (relation "measure (\<lambda>(n, xs). length xs)") auto

declare chunksOf.simps [simp del]

text \<open>
  The coordinator as the specification words it, over a list of chunks: the chunks are
  processed strictly in order; a chunk without a successful fragment is skipped; while the
  running aggregate is empty the chunk's result is adopted; otherwise the two are merged, the
  remote flag by logical or and the count by sum; an error of the chunk or of the merge ends
  the call with that error and nothing else.
\<close>

fun chunkedGrab_spec ::
  "('a, 'f) world \<Rightarrow> 'a Fetcher option \<Rightarrow> ObjTool \<Rightarrow> profileSource list list \<Rightarrow>
   'a profile option \<Rightarrow> MappingSources \<Rightarrow> bool \<Rightarrow> nat \<Rightarrow> ui_event list \<Rightarrow>
   'a grabResult \<times> ui_event list" where
  "chunkedGrab_spec w fetcher obj [] p msrc save count out = ((p, msrc, save, count, None), out)"
| "chunkedGrab_spec w fetcher obj (chunk # rest) p msrc save count out =
     (case concurrentGrab w chunk fetcher obj of
        ((chunkP, chunkMsrc, chunkSave, chunkCount, chunkErr), chunkOut) \<Rightarrow>
          (case chunkErr of
             Some err \<Rightarrow> ((None, None, False, 0, Some err), out @ chunkOut)
           | None \<Rightarrow>
               (case chunkP of
                  None \<Rightarrow> chunkedGrab_spec w fetcher obj rest p msrc save count (out @ chunkOut)
                | Some cp \<Rightarrow>
                    (case p of
                       None \<Rightarrow>
                         chunkedGrab_spec w fetcher obj rest (Some cp) chunkMsrc chunkSave
                           chunkCount (out @ chunkOut)
                     | Some p0 \<Rightarrow>
                         (case combineProfiles w [p0, cp] [msrc, chunkMsrc] of
                            Inl err \<Rightarrow> ((None, None, False, 0, Some err), out @ chunkOut)
                          | Inr (p', msrc') \<Rightarrow>
                              chunkedGrab_spec w fetcher obj rest (Some p') msrc'
                                (chunkSave \<or> save) (count + chunkCount) (out @ chunkOut))))))"

section \<open>Properties of setTmpDir\<close>

text \<open>
  Claim C6, as the code has it. A non-empty \<^verbatim>\<open>PPROF_TMPDIR\<close> is returned as it is, without
  \<^verbatim>\<open>os.MkdirAll\<close> being tried on it. Only when it is empty are the two other candidates,
  \<^verbatim>\<open>$HOME/pprof\<close> and then the system's temporary directory, tried in this order, and the first
  that \<^verbatim>\<open>os.MkdirAll\<close> accepts is returned. The call returns an error exactly when the override
  is empty and \<^verbatim>\<open>os.MkdirAll\<close> refuses both.
\<close>

theorem setTmpDir_resolution:
  "fst (setTmpDir w) =
     (if Getenv w ''PPROF_TMPDIR'' \<noteq> [] then (Getenv w ''PPROF_TMPDIR'', None)
      else if MkdirAll w (Getenv w ''HOME'' @ ''/pprof'') = None
        then (Getenv w ''HOME'' @ ''/pprof'', None)
      else if MkdirAll w (TempDir w) = None then (TempDir w, None)
      else ([], Some ''failed to identify temp dir'')) \<and>
   (snd (fst (setTmpDir w)) \<noteq> None) =
     (Getenv w ''PPROF_TMPDIR'' = [] \<and>
      MkdirAll w (Getenv w ''HOME'' @ ''/pprof'') \<noteq> None \<and>
      MkdirAll w (TempDir w) \<noteq> None)"
  by (auto simp: setTmpDir_def Let_def split: option.splits prod.splits)

text \<open>
  Claim C6 as it is stated fails: in \<open>tmpWorld\<close> the override cannot be created while
  \<^verbatim>\<open>$HOME/pprof\<close> can, and \<open>setTmpDir\<close> returns the override, with no error.
\<close>

theorem setTmpDir_override_unchecked:
  "fst (setTmpDir tmpWorld) = (''/proc/none'', None) \<and>
   MkdirAll tmpWorld ''/proc/none'' \<noteq> None \<and>
   MkdirAll tmpWorld (Getenv tmpWorld ''HOME'' @ ''/pprof'') = None"
  by (simp add: setTmpDir_def tmpWorld_def world0_def)

section \<open>Properties of unsourceMappings\<close>

lemma unsourceMappings_loop_length:
  "length (unsourceMappings_loop w ms) = length ms"
  by (induction ms) auto

lemma unsourceMappings_loop_nth:
  "i < length ms \<Longrightarrow>
   unsourceMappings_loop w ms ! i =
     (if BuildID (ms ! i) = [] \<and> (\<exists>u. urlParse w (File (ms ! i)) = Inr u \<and> IsAbs u)
      then (ms ! i)\<lparr>File := []\<rparr> else ms ! i)"
proof (induction ms arbitrary: i)
  case Nil
  then show ?case by simp
next
  case (Cons m ms)
  show ?case
  proof (cases i)
    case 0
    then show ?thesis by (auto split: sum.splits)
  next
    case (Suc j)
    with Cons.IH [of j] Cons.prems show ?thesis by auto
  qed
qed

text \<open>
  Claim C10. \<open>unsourceMappings\<close> keeps the number and order of the mappings and everything
  else in the profile. The mapping at each index is the one that was there, with its file
  emptied exactly when its build ID is empty and \<^verbatim>\<open>url.Parse\<close> reads its file as a URL with a
  scheme; a mapping with a build ID, or whose file is no absolute URL, is the same afterwards.
\<close>

theorem unsourceMappings_frame:
  "length (Mapping (unsourceMappings w p)) = length (Mapping p) \<and>
   SampleType (unsourceMappings w p) = SampleType p \<and>
   Body (unsourceMappings w p) = Body p \<and>
   (\<forall>i < length (Mapping p).
      Mapping (unsourceMappings w p) ! i =
        (if BuildID (Mapping p ! i) = [] \<and>
            (\<exists>u. urlParse w (File (Mapping p ! i)) = Inr u \<and> IsAbs u)
         then (Mapping p ! i)\<lparr>File := []\<rparr> else Mapping p ! i))"
  by (simp add: unsourceMappings_def unsourceMappings_loop_length unsourceMappings_loop_nth)

text \<open>
  On \<open>prof3\<close>: the mapping that holds a source URL and no build ID is cleared, the one with a
  build ID and the one with a local path are kept.
\<close>

theorem unsourceMappings_frame_witness:
  "Mapping (unsourceMappings world0 prof3) ! 0 = (Mapping prof3 ! 0)\<lparr>File := []\<rparr> \<and>
   Mapping (unsourceMappings world0 prof3) ! 1 = Mapping prof3 ! 1 \<and>
   Mapping (unsourceMappings world0 prof3) ! 2 = Mapping prof3 ! 2 \<and>
   File (Mapping prof3 ! 0) \<noteq> []"
proof -
  have len: "length (Mapping prof3) = 3" by (simp add: prof3_def)
  have nth: "\<forall>i < 3. Mapping (unsourceMappings world0 prof3) ! i =
        (if BuildID (Mapping prof3 ! i) = [] \<and>
            (\<exists>u. urlParse world0 (File (Mapping prof3 ! i)) = Inr u \<and> IsAbs u)
         then (Mapping prof3 ! i)\<lparr>File := []\<rparr> else Mapping prof3 ! i)"
    using unsourceMappings_frame [of world0 prof3] len by simp
  have "Mapping (unsourceMappings world0 prof3) ! 0 = (Mapping prof3 ! 0)\<lparr>File := []\<rparr>"
    using nth [rule_format, of 0] by (simp add: prof3_def world0_def parseSimple_def IsAbs_def)
  moreover have "Mapping (unsourceMappings world0 prof3) ! 1 = Mapping prof3 ! 1"
    using nth [rule_format, of 1] by (simp add: prof3_def)
  moreover have "Mapping (unsourceMappings world0 prof3) ! 2 = Mapping prof3 ! 2"
    using nth [rule_format, of 2] by (simp add: prof3_def world0_def parseSimple_def IsAbs_def)
  moreover have "File (Mapping prof3 ! 0) \<noteq> []" by (simp add: prof3_def)
  ultimately show ?thesis by simp
qed

section \<open>Properties of combineProfiles\<close>

lemma foldl_appendSources:
  "foldl appendSources m0 msrcs k =
     (if \<exists>ms \<in> set msrcs. hasKey k ms
      then Some ((case m0 k of None \<Rightarrow> [] | Some l \<Rightarrow> l) @ concat (map (entriesAt k) msrcs))
      else m0 k)"
proof (induction msrcs arbitrary: m0)
  case Nil
  then show ?case by simp
next
  case (Cons ms msrcs)
  show ?case
    by (simp add: Cons.IH) 
       (auto simp: appendSources_def hasKey_def entriesAt_def split: option.splits)
qed

text \<open>
  Claim C4. When \<open>combineProfiles\<close> returns a result, its provenance map is not nil and
  holds, under every key that some input map has, the lists of the inputs under that key, one
  after the other in the order of the inputs, and nothing under any other key. For two input
  maps that share a key the list is the first map's followed by the second's, so its length is
  the sum of the two lengths.
\<close>

theorem combineProfiles_provenance:
  assumes "combineProfiles w profiles msrcs = Inr (p, msrc)"
  shows "\<exists>m. msrc = Some m \<and>
           (\<forall>k. m k = (if \<exists>ms \<in> set msrcs. hasKey k ms
                        then Some (concat (map (entriesAt k) msrcs)) else None)) \<and>
           (\<forall>a b la lb k. msrcs = [Some a, Some b] \<and> a k = Some la \<and> b k = Some lb \<longrightarrow>
                m k = Some (la @ lb) \<and> length (la @ lb) = length la + length lb)"
proof -
  from assms have msrc: "msrc = Some (foldl appendSources Map.empty msrcs)"
    by (auto simp: combineProfiles_def split: sum.splits)
  have all: "\<forall>k. foldl appendSources Map.empty msrcs k =
      (if \<exists>ms \<in> set msrcs. hasKey k ms
       then Some (concat (map (entriesAt k) msrcs)) else None)"
    by (simp add: foldl_appendSources)
  have pair: "\<forall>a b la lb k. msrcs = [Some a, Some b] \<and> a k = Some la \<and> b k = Some lb \<longrightarrow>
      foldl appendSources Map.empty msrcs k = Some (la @ lb) \<and>
      length (la @ lb) = length la + length lb"
    by (auto simp: appendSources_def)
  from msrc all pair show ?thesis by blast
qed

text \<open>
  On \<open>msrcA\<close> and \<open>msrcB\<close>: the shared key holds the two entries of the first map, then the
  entry of the second.
\<close>

theorem combineProfiles_provenance_witness:
  "\<exists>m. combineProfiles world0 [profCpu, profCpu] [msrcA, msrcB] = Inr (profCpu, Some m) \<and>
        m ''abc'' = Some [(''http://a/profile'', 0), (''http://a/profile'', 4096),
                          (''http://b/profile'', 0)] \<and>
        m ''/bin/ls'' = Some [(''http://b/profile'', 8192)] \<and>
        m ''other'' = None"
proof -
  have run: "combineProfiles world0 [profCpu, profCpu] [msrcA, msrcB] =
      Inr (profCpu, Some (foldl appendSources Map.empty [msrcA, msrcB]))"
    by (simp add: combineProfiles_def world0_def mergeSimple_def profCpu_def)
  from combineProfiles_provenance [OF run]
  have "\<forall>k. foldl appendSources Map.empty [msrcA, msrcB] k =
      (if \<exists>ms \<in> set [msrcA, msrcB]. hasKey k ms
       then Some (concat (map (entriesAt k) [msrcA, msrcB])) else None)"
    by simp
  then have
    "foldl appendSources Map.empty [msrcA, msrcB] ''abc'' =
       Some [(''http://a/profile'', 0), (''http://a/profile'', 4096), (''http://b/profile'', 0)]"
    "foldl appendSources Map.empty [msrcA, msrcB] ''/bin/ls'' = Some [(''http://b/profile'', 8192)]"
    "foldl appendSources Map.empty [msrcA, msrcB] ''other'' = None"
    by (simp_all add: hasKey_def entriesAt_def msrcA_def msrcB_def)
  with run show ?thesis by simp
qed

section \<open>Properties of adjustURL and httpGet\<close>

lemma sint_Second: "sint Second = 1000000000"
  by (simp add: Second_def)

lemma sint_word_of_int_64:
  "- (2 ^ 63) \<le> x \<Longrightarrow> x < 2 ^ 63 \<Longrightarrow> sint (word_of_int x :: 64 word) = x"
  by (simp add: sint_word_ariths signed_take_bit_int_eq_self Word.sint_sbintrunc')

lemma sint_add_64:
  "- (2 ^ 63) \<le> sint a + sint b \<Longrightarrow> sint a + sint b < 2 ^ 63 \<Longrightarrow>
   sint (a + b :: 64 word) = sint a + sint b"
  by (simp add: sint_word_ariths signed_take_bit_int_eq_self)

lemma sint_mult_64:
  "- (2 ^ 63) \<le> sint a * sint b \<Longrightarrow> sint a * sint b < 2 ^ 63 \<Longrightarrow>
   sint (a * b :: 64 word) = sint a * sint b"
  by (simp add: sint_word_ariths signed_take_bit_int_eq_self)

lemma sint_half_plus:
  assumes "0 < sint d" and "sint d + sint d div 2 < 2 ^ 63"
  shows "sint (d + sdiv64 d 2) = sint d + sint d div 2"
proof -
  have half: "sint d sdiv 2 = sint d div 2"
    using assms(1) by (simp add: signed_divide_int_def sgn_if)
  have "sint (sdiv64 d 2) = sint d div 2"
    using assms by (simp add: sdiv64_def half sint_word_of_int_64)
  then show ?thesis
    using assms by (simp add: sint_add_64)
qed

lemma sint_scast_Second:
  "sint ((scast (us :: 32 word) :: 64 word) * Second) = sint us * 1000000000"
proof -
  have up: "sint (scast us :: 64 word) = sint us"
    by (simp add: sint_up_scast is_up)
  have "- (2 ^ 31) \<le> sint us" "sint us < 2 ^ 31"
    using sint_ge [of us] sint_lt [of us] by simp_all
  then have "- (2 ^ 63) \<le> sint us * 1000000000" "sint us * 1000000000 < 2 ^ 63"
    by simp_all
  then show ?thesis
    by (simp add: sint_mult_64 up sint_Second)
qed


lemma adjustURL_snd:
  "resolveURL w src = Some u \<Longrightarrow>
   snd (adjustURL w src duration timeout) =
     adjustTimeout (adjustDuration w (ParseQuery w (RawQuery u)) duration) timeout"
  by (simp add: adjustURL_def Let_def)

text \<open>
  Claim C5, as the code has it. For a source that \<open>adjustURL\<close> takes as a URL, and a timeout
  of the caller that is not positive, let \<open>d\<close> be the duration after the block that may read
  it from the \<^verbatim>\<open>seconds\<close> parameter of the URL. When \<open>d\<close> is positive and
  \<open>d + d / 2\<close> fits an int64, the timeout is \<open>d + d / 2\<close> nanoseconds, which is \<open>1.5 d\<close> for an
  even \<open>d\<close> (every whole number of seconds is); when \<open>d\<close> is not positive the timeout is 60
  seconds. \<open>d\<close> is the caller's duration when that is positive; otherwise it is the
  \<^verbatim>\<open>seconds\<close> parameter times a second when \<^verbatim>\<open>strconv.ParseInt\<close> reads one (a 32-bit value,
  so the timeout is \<open>1.5 d\<close> without overflow), and the caller's duration when it reads none.
  \<open>httpGet\<close> gives its client the timeout it receives plus 5 seconds, in int64 arithmetic,
  as the time to wait for the response header.
\<close>

theorem adjustURL_timeout:
  assumes url: "resolveURL w src = Some u" and none: "timeout \<le>s 0"
  shows "let vals = ParseQuery w (RawQuery u);
             d = adjustDuration w vals duration;
             t = snd (adjustURL w src duration timeout)
         in (0 < sint d \<and> sint d + sint d div 2 < 2 ^ 63 \<longrightarrow>
               sint t = sint d + sint d div 2 \<and> (even (sint d) \<longrightarrow> 2 * sint t = 3 * sint d)) \<and>
            (sint d \<le> 0 \<longrightarrow> t = 60 * Second \<and> sint t = 60000000000) \<and>
            (0 < sint duration \<longrightarrow> d = duration) \<and>
            (\<forall>us. sint duration \<le> 0 \<and> valuesGet vals ''seconds'' \<noteq> [] \<and>
                  ParseInt32 w (valuesGet vals ''seconds'') = Inr us \<longrightarrow>
                  sint d = sint us * 1000000000 \<and> (0 < sint us \<longrightarrow> 2 * sint t = 3 * sint d)) \<and>
            (sint duration \<le> 0 \<and>
             (valuesGet vals ''seconds'' = [] \<or>
              (\<exists>e. ParseInt32 w (valuesGet vals ''seconds'') = Inl e)) \<longrightarrow> d = duration) \<and>
            (\<forall>t0 url. httpGet w url t0 = clientGet w (ResponseHeaderTimeout t0) url \<and>
                  ResponseHeaderTimeout t0 = t0 + 5 * Second \<and>
                  (- (2 ^ 63) \<le> sint t0 + 5000000000 \<and> sint t0 + 5000000000 < 2 ^ 63 \<longrightarrow>
                   sint (ResponseHeaderTimeout t0) = sint t0 + 5000000000))"
proof -
  define vals where "vals = ParseQuery w (RawQuery u)"
  define d where "d = adjustDuration w vals duration"
  define t where "t = snd (adjustURL w src duration timeout)"
  have t_eq: "t = adjustTimeout d timeout"
    by (simp add: t_def d_def vals_def adjustURL_snd [OF url])
  have pos: "sint t = sint d + sint d div 2"
    if "0 < sint d" "sint d + sint d div 2 < 2 ^ 63"
    using that none by (simp add: t_eq adjustTimeout_def word_sless_alt sint_half_plus)
  have pos_even: "2 * sint t = 3 * sint d"
    if "0 < sint d" "sint d + sint d div 2 < 2 ^ 63" "even (sint d)"
    using pos [OF that(1,2)] that(3) by (auto elim: evenE)
  have nonpos: "t = 60 * Second \<and> sint t = 60000000000" if "sint d \<le> 0"
    using that none by (simp add: t_eq adjustTimeout_def word_sless_alt Second_def)
  have keep: "d = duration" if "0 < sint duration"
    using that by (simp add: d_def adjustDuration_def word_sless_alt)
  have derived: "sint d = sint us * 1000000000 \<and> (0 < sint us \<longrightarrow> 2 * sint t = 3 * sint d)"
    if "sint duration \<le> 0" "valuesGet vals ''seconds'' \<noteq> []"
       "ParseInt32 w (valuesGet vals ''seconds'') = Inr us" for us
  proof -
    have d_us: "d = scast us * Second"
      using that by (simp add: d_def adjustDuration_def word_sless_alt)
    have sd: "sint d = sint us * 1000000000"
      by (simp add: d_us sint_scast_Second)
    have "sint us < 2 ^ 31"
      using sint_lt [of us] by simp
    then have "0 < sint us \<Longrightarrow> 0 < sint d \<and> sint d + sint d div 2 < 2 ^ 63 \<and> even (sint d)"
      by (simp add: sd)
    with pos_even sd show ?thesis by blast
  qed
  have underived: "d = duration"
    if "sint duration \<le> 0"
       "valuesGet vals ''seconds'' = [] \<or>
        (\<exists>e. ParseInt32 w (valuesGet vals ''seconds'') = Inl e)"
    using that by (auto simp: d_def adjustDuration_def word_sless_alt Let_def)
  have margin: "httpGet w url t0 = clientGet w (ResponseHeaderTimeout t0) url \<and>
      ResponseHeaderTimeout t0 = t0 + 5 * Second \<and>
      (- (2 ^ 63) \<le> sint t0 + 5000000000 \<and> sint t0 + 5000000000 < 2 ^ 63 \<longrightarrow>
       sint (ResponseHeaderTimeout t0) = sint t0 + 5000000000)" for t0 url
  proof -
    have five: "sint (5 * Second) = 5000000000"
      by (simp add: Second_def)
    show ?thesis
      by (simp add: httpGet_def ResponseHeaderTimeout_def sint_add_64 five)
  qed
  show ?thesis
    unfolding Let_def vals_def [symmetric] d_def [symmetric] t_def [symmetric]
    using pos pos_even nonpos keep derived underived margin by blast
qed

text \<open>
  A duration of 30 seconds gives 45 seconds, as does a URL with \<^verbatim>\<open>seconds=30\<close> and no
  duration; no duration at all gives 60 seconds; the transport waits 5 seconds more.
\<close>

theorem adjustURL_timeout_witness:
  "sint (snd (adjustURL urlWorld ''http://host/profile'' (30 * Second) 0)) = 45000000000 \<and>
   sint (snd (adjustURL urlWorld ''http://host/profile?seconds=30'' 0 0)) = 45000000000 \<and>
   sint (snd (adjustURL urlWorld ''http://host/profile'' 0 0)) = 60000000000 \<and>
   sint (ResponseHeaderTimeout (snd (adjustURL urlWorld ''http://host/profile'' (30 * Second) 0)))
     = 50000000000"
proof -
  let ?u = "\<lparr>Scheme = ''http'', Host = ''host'', RawQuery = [], Path = ''/profile''\<rparr>"
  let ?v = "\<lparr>Scheme = ''http'', Host = ''host'', RawQuery = ''seconds=30'',
            Path = ''/profile''\<rparr>"
  have u: "resolveURL urlWorld ''http://host/profile'' = Some ?u"
    by (simp add: resolveURL_def urlWorld_def world0_def parseSimple_def)
  have v: "resolveURL urlWorld ''http://host/profile?seconds=30'' = Some ?v"
    by (simp add: resolveURL_def urlWorld_def world0_def parseSimple_def)
  have z: "(0 :: 64 word) \<le>s 0" by simp
  have d30: "adjustDuration urlWorld (ParseQuery urlWorld []) (30 * Second) = 30 * Second"
    by (simp add: adjustDuration_def Second_def word_sless_alt)
  have d0: "adjustDuration urlWorld (ParseQuery urlWorld []) 0 = 0"
    by (simp add: adjustDuration_def urlWorld_def world0_def valuesGet_def)
  have dv: "adjustDuration urlWorld (ParseQuery urlWorld ''seconds=30'') 0 = 30 * Second"
    by (simp add: adjustDuration_def urlWorld_def world0_def valuesGet_def)
  have s30: "sint (30 * Second) = 30000000000"
    by (simp add: Second_def)
  have a: "sint (snd (adjustURL urlWorld ''http://host/profile'' (30 * Second) 0)) = 45000000000"
    using adjustURL_timeout [OF u z, of "30 * Second"] by (simp add: Let_def d30 s30)
  have b: "sint (snd (adjustURL urlWorld ''http://host/profile?seconds=30'' 0 0)) = 45000000000"
    using adjustURL_timeout [OF v z, of 0] by (simp add: Let_def dv s30)
  have c: "sint (snd (adjustURL urlWorld ''http://host/profile'' 0 0)) = 60000000000"
    using adjustURL_timeout [OF u z, of 0] by (simp add: Let_def d0 Second_def)
  from adjustURL_timeout [OF u z, of "30 * Second"]
  have margin: "\<forall>t0 :: Duration.
      - (2 ^ 63) \<le> sint t0 + 5000000000 \<and> sint t0 + 5000000000 < 2 ^ 63 \<longrightarrow>
      sint (ResponseHeaderTimeout t0) = sint t0 + 5000000000"
    unfolding Let_def by blast
  have m: "sint (ResponseHeaderTimeout (snd (adjustURL urlWorld ''http://host/profile'' (30 * Second) 0)))
      = 50000000000"
    using margin [rule_format, of "snd (adjustURL urlWorld ''http://host/profile'' (30 * Second) 0)"] a
    by simp
  from a b c m show ?thesis by simp
qed

text \<open>
  Claim C5 as it is stated fails for a long duration: with \<^verbatim>\<open>-seconds=7000000000\<close> the
  duration is positive, \<open>d + d / 2\<close> exceeds the int64 range, and the timeout wraps to a
  negative number.
\<close>

theorem adjustURL_timeout_overflow:
  "resolveURL world0 ''http://host/profile'' \<noteq> None \<and>
   sint (7000000000 * Second) = 7000000000000000000 \<and>
   sint (snd (adjustURL world0 ''http://host/profile'' (7000000000 * Second) 0))
     = - 7946744073709551616"
  by (simp add: adjustURL_def resolveURL_def world0_def parseSimple_def Let_def
        adjustDuration_def adjustTimeout_def sdiv64_def Second_def word_sless_alt
        word_sle_eq signed_divide_int_def)

section \<open>Properties of locateBinaries\<close>















section \<open>Running the environment world0\<close>

text \<open>
  In \<open>world0\<close> a relative path is a file that parses to a profile whose sample type is the
  path, and an absolute path is a file that does not exist.
\<close>

lemma fetch_local_world0:
  "take 1 path \<noteq> ''/'' \<Longrightarrow> take 7 path \<noteq> ''http://'' \<Longrightarrow> take (length ''PERFILE2'') path \<noteq> ''PERFILE2'' \<Longrightarrow>
   fetch world0 path duration timeout =
     ((Inr \<lparr>SampleType = [path], Mapping = [], Body = ()\<rparr>, []), [])"
  by (simp add: fetch_def adjustURL_def resolveURL_def isPerfFile_def world0_def
        parseSimple_def Let_def)

lemma fetch_missing_world0:
  "take 1 path = ''/'' \<Longrightarrow>
   fetch world0 path duration timeout =
     ((Inl (''open '' @ path @ '': no such file''), []), [])"
  by (cases path) (simp_all add: fetch_def adjustURL_def resolveURL_def isPerfFile_def world0_def
        parseSimple_def Let_def)

lemma checked_world0:
  "grabProfile_checked world0 s scl obj \<lparr>SampleType = st, Mapping = [], Body = ()\<rparr> [] =
     (Inr (\<lparr>SampleType = st, Mapping = [], Body = ()\<rparr>, None, False), [])"
  by (simp add: grabProfile_checked_def locateBinaries_def world0_def)

lemma grab_local_world0:
  "take 1 path \<noteq> ''/'' \<Longrightarrow> take 7 path \<noteq> ''http://'' \<Longrightarrow> take (length ''PERFILE2'') path \<noteq> ''PERFILE2'' \<Longrightarrow>
   grabProfile world0 s path scl None obj =
     (Inr (\<lparr>SampleType = [path], Mapping = [], Body = ()\<rparr>, None, False), [])"
  by (simp add: grabProfile_def grabProfile_builtin_def fetch_local_world0 checked_world0)

lemma grab_missing_world0:
  "take 1 path = ''/'' \<Longrightarrow>
   grabProfile world0 s path scl None obj = (Inl (''open '' @ path @ '': no such file''), [])"
  by (simp add: grabProfile_def grabProfile_builtin_def fetch_missing_world0)

lemma grabTask_local_world0:
  "take 1 (addr t) \<noteq> ''/'' \<Longrightarrow> take 7 (addr t) \<noteq> ''http://'' \<Longrightarrow>
   take (length ''PERFILE2'') (addr t) \<noteq> ''PERFILE2'' \<Longrightarrow>
   grabTask world0 None obj t =
     Inr (\<lparr>SampleType = [addr t], Mapping = [], Body = ()\<rparr>, None, False)"
  by (simp add: grabTask_def grab_local_world0)

lemma grabTask_missing_world0:
  "take 1 (addr t) = ''/'' \<Longrightarrow>
   grabTask world0 None obj t = Inl (''open '' @ addr t @ '': no such file'')"
  by (simp add: grabTask_def grab_missing_world0)

lemma grabTask_cpu: "grabTask world0 None obj taskCpu = Inr (profCpu, None, False)"
  by (simp add: grabTask_local_world0 taskCpu_def profCpu_def)

lemma grabTask_heap: "grabTask world0 None obj taskHeap = Inr (profHeap, None, False)"
  by (simp add: grabTask_local_world0 taskHeap_def profHeap_def)

lemma grabTask_missing:
  "grabTask world0 None obj taskMissing = Inl ''open /missing.pb: no such file''"
  by (simp add: grabTask_missing_world0 taskMissing_def)

lemma grabTask_serving:
  "grabTask world0 (Some servingFetcher) noObj taskCpu = Inr (profCpu, Some Map.empty, True)"
  by (simp add: grabTask_def grabProfile_def servingFetcher_def taskCpu_def
        grabProfile_checked_def locateBinaries_def collectMappingSources_def world0_def
        profCpu_def)

section \<open>Properties of grabProfile\<close>

text \<open>
  Claim C1, as the code has it. When the fetcher returns no profile and no error,
  \<open>grabProfile\<close> does what it does without a fetcher: it calls the built-in resolver. When
  the fetcher returns an error, \<open>grabProfile\<close> returns that error, prints nothing and does not
  call the built-in resolver.
\<close>

theorem grabProfile_fallback:
  "(f src0 (Seconds s * Second) (Timeout s * Second) = (None, fsrc, None) \<longrightarrow>
      grabProfile w s src0 scl (Some f) obj = grabProfile w s src0 scl None obj \<and>
      grabProfile w s src0 scl None obj =
        grabProfile_builtin w s src0 scl obj (Seconds s * Second) (Timeout s * Second)) \<and>
   (f src0 (Seconds s * Second) (Timeout s * Second) = (p, fsrc, Some err) \<longrightarrow>
      grabProfile w s src0 scl (Some f) obj = (Inl err, []))"
  by (simp add: grabProfile_def Let_def)

text \<open>
  In \<open>world0\<close>, on the file \<^verbatim>\<open>cpu.pb\<close>: behind a fetcher that declines, the built-in
  resolver reads the file; behind a fetcher that fails, the task fails.
\<close>

theorem grabProfile_fallback_witness:
  "grabProfile world0 cfg0 ''cpu.pb'' 1 (Some decliningFetcher) noObj =
     (Inr (profCpu, None, False), []) \<and>
   grabProfile world0 cfg0 ''cpu.pb'' 1 (Some failingFetcher) noObj =
     (Inl ''fetcher failed'', [])"
proof -
  have decl: "decliningFetcher ''cpu.pb'' (Seconds cfg0 * Second) (Timeout cfg0 * Second) =
      (None, [], None)"
    by (simp add: decliningFetcher_def)
  have fail: "failingFetcher ''cpu.pb'' (Seconds cfg0 * Second) (Timeout cfg0 * Second) =
      (None, [], Some ''fetcher failed'')"
    by (simp add: failingFetcher_def)
  have a: "grabProfile world0 cfg0 ''cpu.pb'' 1 (Some decliningFetcher) noObj =
      grabProfile world0 cfg0 ''cpu.pb'' 1 None noObj"
    using grabProfile_fallback [of decliningFetcher "''cpu.pb''" cfg0 "[]" world0 1 noObj] decl
    by simp
  have b: "grabProfile world0 cfg0 ''cpu.pb'' 1 (Some failingFetcher) noObj =
      (Inl ''fetcher failed'', [])"
    using grabProfile_fallback [of failingFetcher "''cpu.pb''" cfg0 "[]" world0 1 noObj None
        "''fetcher failed''"] fail
    by simp
  from a b show ?thesis
    by (simp add: grab_local_world0 profCpu_def)
qed

text \<open>
  Claim C1 as it is stated fails: the fetcher returns an error, the built-in resolver would
  have read the profile, and the task fails with the fetcher's error.
\<close>

theorem grabProfile_fetcher_error_no_fallback:
  "fst (grabProfile world0 cfg0 ''cpu.pb'' 1 (Some failingFetcher) noObj) = Inl ''fetcher failed'' \<and>
   fst (grabProfile world0 cfg0 ''cpu.pb'' 1 None noObj) = Inr (profCpu, None, False)"
  by (simp add: grab_local_world0 profCpu_def)
     (simp add: grabProfile_def failingFetcher_def)

section \<open>Properties of concurrentGrab\<close>

lemma collectSlots_result:
  "\<exists>out'. collectSlots (map (\<lambda>s. (s, g s)) xs) save ps ms out =
     (save \<or> (\<exists>r \<in> set (concat (map (\<lambda>s. case g s of Inl err \<Rightarrow> [] | Inr r \<Rightarrow> [r]) xs)).
                 snd (snd r)),
      ps @ map fst (concat (map (\<lambda>s. case g s of Inl err \<Rightarrow> [] | Inr r \<Rightarrow> [r]) xs)),
      ms @ map (fst \<circ> snd) (concat (map (\<lambda>s. case g s of Inl err \<Rightarrow> [] | Inr r \<Rightarrow> [r]) xs)),
      out')"
proof (induction xs arbitrary: save ps ms out)
  case Nil
  then show ?case by simp
next
  case (Cons x xs)
  show ?case
  proof (cases "g x")
    case (Inl err)
    with Cons.IH [of save ps ms "out @ [PrintErr [addr x @ '': '' @ err]]"]
    show ?thesis by simp
  next
    case (Inr r)
    obtain p m rem where r: "r = (p, m, rem)" by (cases r)
    from Cons.IH [of "save \<or> rem" "ps @ [p]" "ms @ [m]" out] Inr r
    show ?thesis by auto
  qed
qed

lemma zip_map_self: "zip xs (map f xs) = map (\<lambda>x. (x, f x)) xs"
  by (induction xs) simp_all

lemma concurrentGrab_fst:
  "fst (concurrentGrab w sources fetcher obj) =
     (let ok = survivors w sources fetcher obj
      in if ok = [] then (None, None, False, 0, None)
         else (case combineProfiles w (map fst ok) (map (fst \<circ> snd) ok) of
                 Inl err \<Rightarrow> (None, None, False, 0, Some err)
               | Inr (p, msrc) \<Rightarrow>
                   (Some p, msrc, (\<exists>r \<in> set ok. snd (snd r)), length ok, None)))"
proof -
  let ?g = "grabTask w fetcher obj"
  let ?out = "concat (map (\<lambda>s. snd (grabProfile w (psource s) (addr s) (scale s) fetcher obj)) sources)"
  obtain out' where c: "collectSlots (map (\<lambda>s. (s, ?g s)) sources) False [] [] ?out =
     (False \<or> (\<exists>r \<in> set (survivors w sources fetcher obj). snd (snd r)),
      [] @ map fst (survivors w sources fetcher obj),
      [] @ map (fst \<circ> snd) (survivors w sources fetcher obj), out')"
    using collectSlots_result [of ?g sources False "[]" "[]" ?out]
    unfolding survivors_def by blast
  have z: "zip sources (map fst (map (\<lambda>s. grabProfile w (psource s) (addr s) (scale s) fetcher obj) sources))
      = map (\<lambda>s. (s, ?g s)) sources"
    by (simp add: zip_map_self grabTask_def comp_def)
  have o: "map snd (map (\<lambda>s. grabProfile w (psource s) (addr s) (scale s) fetcher obj) sources)
      = map (\<lambda>s. snd (grabProfile w (psource s) (addr s) (scale s) fetcher obj)) sources"
    by simp
  show ?thesis
    unfolding concurrentGrab_def Let_def z o c
    by (simp split: sum.splits prod.splits)
qed

text \<open>
  Claim C9, as the code has it. When no task of the chunk succeeds, \<open>concurrentGrab\<close>
  returns a nil profile, a nil provenance map, \<open>False\<close>, the count 0 and no error. When some
  task succeeds and \<open>combineProfiles\<close> merges the surviving results, it returns the merged
  profile, the merged provenance, whether a surviving task was remote, and the number of
  surviving tasks. When some task succeeds and \<open>combineProfiles\<close> fails, it returns that
  error, with a nil profile, a nil provenance map, \<open>False\<close> and the count 0.
\<close>

theorem concurrentGrab_result:
  "let ok = survivors w sources fetcher obj
   in (ok = [] \<longrightarrow> fst (concurrentGrab w sources fetcher obj) = (None, None, False, 0, None)) \<and>
      (ok \<noteq> [] \<longrightarrow>
         (\<forall>p msrc. combineProfiles w (map fst ok) (map (fst \<circ> snd) ok) = Inr (p, msrc) \<longrightarrow>
            fst (concurrentGrab w sources fetcher obj) =
              (Some p, msrc, (\<exists>r \<in> set ok. snd (snd r)), length ok, None)) \<and>
         (\<forall>err. combineProfiles w (map fst ok) (map (fst \<circ> snd) ok) = Inl err \<longrightarrow>
            fst (concurrentGrab w sources fetcher obj) = (None, None, False, 0, Some err)))"
  by (simp add: concurrentGrab_fst Let_def)

text \<open>
  In \<open>world0\<close>: two of three tasks survive and merge; two tasks served from a URL are remote;
  a chunk whose only task fails gives the empty result; two profiles with different sample
  types do not merge.
\<close>

theorem concurrentGrab_result_witness:
  "fst (concurrentGrab world0 [taskCpu, taskMissing, taskCpu] None noObj) =
     (Some profCpu, Some Map.empty, False, 2, None) \<and>
   fst (concurrentGrab world0 [taskMissing, taskCpu] (Some servingFetcher) noObj) =
     (Some profCpu, Some Map.empty, True, 2, None) \<and>
   fst (concurrentGrab world0 [taskMissing] None noObj) = (None, None, False, 0, None) \<and>
   fst (concurrentGrab world0 [taskCpu, taskHeap] None noObj) =
     (None, None, False, 0, Some ''incompatible sample types'')"
proof -
  have s1: "survivors world0 [taskCpu, taskMissing, taskCpu] None noObj =
      [(profCpu, None, False), (profCpu, None, False)]"
    by (simp add: survivors_def grabTask_cpu grabTask_missing)
  have s2: "survivors world0 [taskMissing] None noObj = []"
    by (simp add: survivors_def grabTask_missing)
  have s3: "survivors world0 [taskCpu, taskHeap] None noObj =
      [(profCpu, None, False), (profHeap, None, False)]"
    by (simp add: survivors_def grabTask_cpu grabTask_heap)
  have sm: "grabTask world0 (Some servingFetcher) noObj taskMissing =
      Inr (profCpu, Some Map.empty, True)"
    by (simp add: grabTask_def grabProfile_def servingFetcher_def taskMissing_def
        grabProfile_checked_def locateBinaries_def collectMappingSources_def world0_def
        profCpu_def)
  have s4: "survivors world0 [taskMissing, taskCpu] (Some servingFetcher) noObj =
      [(profCpu, Some Map.empty, True), (profCpu, Some Map.empty, True)]"
    by (simp add: survivors_def grabTask_serving sm)
  have c1: "combineProfiles world0 [profCpu, profCpu] [None, None] = Inr (profCpu, Some Map.empty)"
    by (simp add: combineProfiles_def world0_def mergeSimple_def profCpu_def appendSources_def)
  have c3: "combineProfiles world0 [profCpu, profHeap] [None, None] =
      Inl ''incompatible sample types''"
    by (simp add: combineProfiles_def world0_def mergeSimple_def profCpu_def profHeap_def)
  have c4: "combineProfiles world0 [profCpu, profCpu] [Some Map.empty, Some Map.empty] =
      Inr (profCpu, Some Map.empty)"
    by (simp add: combineProfiles_def world0_def mergeSimple_def profCpu_def appendSources_def)
  have a: "fst (concurrentGrab world0 [taskCpu, taskMissing, taskCpu] None noObj) =
      (Some profCpu, Some Map.empty, False, 2, None)"
    using concurrentGrab_result [of world0 "[taskCpu, taskMissing, taskCpu]" None noObj]
    by (simp add: Let_def s1 c1)
  have b: "fst (concurrentGrab world0 [taskMissing, taskCpu] (Some servingFetcher) noObj) =
      (Some profCpu, Some Map.empty, True, 2, None)"
    using concurrentGrab_result [of world0 "[taskMissing, taskCpu]" "Some servingFetcher" noObj]
    by (simp add: Let_def s4 c4)
  have c: "fst (concurrentGrab world0 [taskMissing] None noObj) = (None, None, False, 0, None)"
    using concurrentGrab_result [of world0 "[taskMissing]" None noObj]
    by (simp add: Let_def s2)
  have d: "fst (concurrentGrab world0 [taskCpu, taskHeap] None noObj) =
      (None, None, False, 0, Some ''incompatible sample types'')"
    using concurrentGrab_result [of world0 "[taskCpu, taskHeap]" None noObj]
    by (simp add: Let_def s3 c3)
  from a b c d show ?thesis by simp
qed

text \<open>
  Claim C9 as it is stated fails: both tasks of the chunk succeed, their profiles have
  different sample types, and \<open>concurrentGrab\<close> returns the count 0 and an error, not the
  count 2.
\<close>

theorem concurrentGrab_combine_error:
  "survivors world0 [taskCpu, taskHeap] None noObj =
     [(profCpu, None, False), (profHeap, None, False)] \<and>
   fst (concurrentGrab world0 [taskCpu, taskHeap] None noObj) =
     (None, None, False, 0, Some ''incompatible sample types'')"
proof -
  have s: "survivors world0 [taskCpu, taskHeap] None noObj =
      [(profCpu, None, False), (profHeap, None, False)]"
    by (simp add: survivors_def grabTask_cpu grabTask_heap)
  have c: "combineProfiles world0 [profCpu, profHeap] [None, None] =
      Inl ''incompatible sample types''"
    by (simp add: combineProfiles_def world0_def mergeSimple_def profCpu_def profHeap_def)
  show ?thesis
    by (simp add: concurrentGrab_fst Let_def s c)
qed

section \<open>Properties of chunkedGrab\<close>

text \<open>One round of the loop, by what \<open>concurrentGrab\<close> returns for the chunk.\<close>

lemma loop_exit:
  "\<not> start < length sources \<Longrightarrow>
   chunkedGrab_loop w sources fetcher obj start p msrc save count out =
     ((p, msrc, save, count, None), out)"
  by (subst chunkedGrab_loop.simps) simp

lemma loop_step:
  assumes "start < length sources"
    and "concurrentGrab w (slice sources start (min (start + chunkSize) (length sources)))
           fetcher obj = ((chunkP, chunkMsrc, chunkSave, chunkCount, chunkErr), chunkOut)"
  shows "chunkedGrab_loop w sources fetcher obj start p msrc save count out =
     (case chunkErr of
        Some err \<Rightarrow> ((None, None, False, 0, Some err), out @ chunkOut)
      | None \<Rightarrow>
          (case chunkP of
             None \<Rightarrow>
               chunkedGrab_loop w sources fetcher obj (start + chunkSize)
                 p msrc save count (out @ chunkOut)
           | Some cp \<Rightarrow>
               (case p of
                  None \<Rightarrow>
                    chunkedGrab_loop w sources fetcher obj (start + chunkSize)
                      (Some cp) chunkMsrc chunkSave chunkCount (out @ chunkOut)
                | Some p0 \<Rightarrow>
                    (case combineProfiles w [p0, cp] [msrc, chunkMsrc] of
                       Inl err \<Rightarrow> ((None, None, False, 0, Some err), out @ chunkOut)
                     | Inr (p', msrc') \<Rightarrow>
                         chunkedGrab_loop w sources fetcher obj (start + chunkSize)
                           (Some p') msrc' (if chunkSave then True else save)
                           (count + chunkCount) (out @ chunkOut)))))"
proof -
  have m: "(if length sources < start + chunkSize then length sources else start + chunkSize)
      = min (start + chunkSize) (length sources)"
    by (simp add: min_def)
  show ?thesis
    by (subst chunkedGrab_loop.simps) (simp add: assms m Let_def split del: if_split cong: if_cong)
qed

lemma slice_full_chunk:
  "start + chunkSize \<le> length sources \<Longrightarrow>
   slice (take (start + chunkSize) sources @ rest) start
     (min (start + chunkSize) (length (take (start + chunkSize) sources @ rest))) =
   slice sources start (min (start + chunkSize) (length sources))"
  by (simp add: slice_def min_def take_drop add.commute)

lemma pair_fst_snd: "fst x = a \<Longrightarrow> x = (a, snd x)"
  by (cases x) simp

lemma fst_of_pair: "x = (a, b) \<Longrightarrow> fst x = a"
  by simp

lemma set_slice: "set (slice xs a b) \<subseteq> set xs"
  unfolding slice_def by (meson set_take_subset set_drop_subset subset_trans)

lemma survivors_all_fail:
  "\<forall>t \<in> set xs. \<exists>e. grabTask w fetcher obj t = Inl e \<Longrightarrow> survivors w xs fetcher obj = []"
  by (induction xs) (auto simp: survivors_def)

lemma loop_all_fail:
  assumes fail: "\<forall>t \<in> set sources. \<exists>e. grabTask w fetcher obj t = Inl e"
  shows "fst (chunkedGrab_loop w sources fetcher obj start p msrc save count out) =
     (p, msrc, save, count, None)"
proof (induction "length sources - start" arbitrary: start out rule: less_induct)
  case less
  show ?case
  proof (cases "start < length sources")
    case False
    then show ?thesis by (simp add: loop_exit)
  next
    case True
    let ?chunk = "slice sources start (min (start + chunkSize) (length sources))"
    have "\<forall>t \<in> set ?chunk. \<exists>e. grabTask w fetcher obj t = Inl e"
      using fail set_slice [of sources start "min (start + chunkSize) (length sources)"] by blast
    then have "survivors w ?chunk fetcher obj = []"
      by (rule survivors_all_fail)
    then have "fst (concurrentGrab w ?chunk fetcher obj) = (None, None, False, 0, None)"
      by (simp add: concurrentGrab_fst)
    then have c: "concurrentGrab w ?chunk fetcher obj =
        ((None, None, False, 0, None), snd (concurrentGrab w ?chunk fetcher obj))"
      by (rule pair_fst_snd)
    have smaller: "length sources - (start + chunkSize) < length sources - start"
      using True by (simp add: chunkSize_def)
    show ?thesis
      by (simp add: loop_step [OF True c] less [OF smaller])
  qed
qed

lemma concurrentGrab_nil_count:
  "concurrentGrab w xs fetcher obj = ((None, m, s, n, e), out) \<Longrightarrow> n = 0"
  using concurrentGrab_fst [of w xs fetcher obj]
  by (auto simp: Let_def split: if_splits sum.splits prod.splits)

text \<open>
  The loop keeps the count at 0 as long as the running profile is nil, so a result with a
  count above 0 carries a profile.
\<close>

lemma loop_nil_count:
  assumes "p = None \<longrightarrow> count = 0"
    and "fst (chunkedGrab_loop w sources fetcher obj start p msrc save count out) =
           (None, m', s', n', e')"
  shows "n' = 0"
  using assms
proof (induction "length sources - start" arbitrary: start p msrc save count out rule: less_induct)
  case less
  show ?case
  proof (cases "start < length sources")
    case False
    with less.prems show ?thesis by (simp add: loop_exit)
  next
    case True
    obtain cp cm cs cc ce cout where
      c: "concurrentGrab w (slice sources start (min (start + chunkSize) (length sources)))
            fetcher obj = ((cp, cm, cs, cc, ce), cout)"
      by (metis prod_cases5 surj_pair)
    have smaller: "length sources - (start + chunkSize) < length sources - start"
      using True by (simp add: chunkSize_def)
    note IH = less.hyps [OF smaller]
    from less.prems(2) have r:
      "fst (case ce of
              Some err \<Rightarrow> ((None, None, False, 0, Some err), out @ cout)
            | None \<Rightarrow>
                (case cp of
                   None \<Rightarrow>
                     chunkedGrab_loop w sources fetcher obj (start + chunkSize)
                       p msrc save count (out @ cout)
                 | Some cp' \<Rightarrow>
                     (case p of
                        None \<Rightarrow>
                          chunkedGrab_loop w sources fetcher obj (start + chunkSize)
                            (Some cp') cm cs cc (out @ cout)
                      | Some p0 \<Rightarrow>
                          (case combineProfiles w [p0, cp'] [msrc, cm] of
                             Inl err \<Rightarrow> ((None, None, False, 0, Some err), out @ cout)
                           | Inr (p', msrc') \<Rightarrow>
                               chunkedGrab_loop w sources fetcher obj (start + chunkSize)
                                 (Some p') msrc' (if cs then True else save)
                                 (count + cc) (out @ cout))))) = (None, m', s', n', e')"
      unfolding loop_step [OF True c] .
    show ?thesis
    proof (cases ce)
      case (Some err)
      with r show ?thesis by simp
    next
      case None
      note ce = this
      show ?thesis
      proof (cases cp)
        case None
        with r ce IH [OF less.prems(1)] show ?thesis by simp
      next
        case (Some cp')
        note cp = this
        show ?thesis
        proof (cases p)
          case None
          with r ce cp IH [of "Some cp'" cc cm cs "out @ cout"] show ?thesis by simp
        next
          case (Some p0)
          note p = this
          show ?thesis
          proof (cases "combineProfiles w [p0, cp'] [msrc, cm]")
            case (Inl err)
            with r ce cp p show ?thesis by simp
          next
            case (Inr pm)
            obtain p' msrc' where pm: "pm = (p', msrc')" by (cases pm)
            with r ce cp p Inr
              IH [of "Some p'" "count + cc" msrc' "if cs then True else save" "out @ cout"]
            show ?thesis by simp
          qed
        qed
      qed
    qed
  qed
qed

subsection \<open>Runs in world0\<close>

lemma survivors_replicate:
  "grabTask w fetcher obj t = Inr r \<Longrightarrow> survivors w (replicate n t) fetcher obj = replicate n r"
  by (induction n) (simp_all add: survivors_def)

lemma foldl_appendSources_nil:
  "foldl appendSources m (replicate n None) = m"
  by (induction n) (simp_all add: appendSources_def)

lemma foldl_appendSources_empty:
  "foldl appendSources Map.empty (replicate n (Some Map.empty)) = Map.empty"
  by (induction n) (simp_all add: appendSources_def)

lemma mergeSimple_replicate:
  "Mapping p = [] \<Longrightarrow> mergeSimple (replicate (Suc n) p) = Inr p"
  by (simp add: mergeSimple_def list_all_iff)

lemma combine_replicate_world0:
  "Mapping p = [] \<Longrightarrow>
   combineProfiles world0 (replicate (Suc n) p) (replicate (Suc n) None) = Inr (p, Some Map.empty)"
  using mergeSimple_replicate [of p n] foldl_appendSources_nil [of Map.empty "Suc n"]
  by (simp add: combineProfiles_def world0_def del: replicate_Suc foldl_Cons)

lemma concurrentGrab_replicate_world0:
  assumes "grabTask world0 None obj t = Inr (p, None, False)" and "Mapping p = []" and "0 < n"
  shows "concurrentGrab world0 (replicate n t) None obj =
     ((Some p, Some Map.empty, False, n, None), snd (concurrentGrab world0 (replicate n t) None obj))"
proof -
  from assms(3) obtain k where n: "n = Suc k" by (cases n) simp_all
  have "fst (concurrentGrab world0 (replicate (Suc k) t) None obj) =
      (Some p, Some Map.empty, False, Suc k, None)"
    using combine_replicate_world0 [OF assms(2), of k]
    by (simp add: concurrentGrab_fst survivors_replicate [OF assms(1)] Let_def
          del: replicate_Suc)
  then show ?thesis
    unfolding n by (rule pair_fst_snd)
qed

lemma combine_cpu_heap:
  "combineProfiles world0 [profCpu, profHeap] [m1, m2] = Inl ''incompatible sample types''"
  by (simp add: combineProfiles_def world0_def mergeSimple_def profCpu_def profHeap_def)

lemma combine_cpu_cpu:
  "\<exists>r. combineProfiles world0 [profCpu, profCpu] [m1, m2] = Inr r"
  by (simp add: combineProfiles_def world0_def mergeSimple_def profCpu_def)

lemma cpu64:
  "concurrentGrab world0 (replicate 64 taskCpu) None noObj =
     ((Some profCpu, Some Map.empty, False, 64, None),
      snd (concurrentGrab world0 (replicate 64 taskCpu) None noObj))"
  by (rule concurrentGrab_replicate_world0 [OF grabTask_cpu]) (simp_all add: profCpu_def)

lemma heap64:
  "concurrentGrab world0 (replicate 64 taskHeap) None noObj =
     ((Some profHeap, Some Map.empty, False, 64, None),
      snd (concurrentGrab world0 (replicate 64 taskHeap) None noObj))"
  by (rule concurrentGrab_replicate_world0 [OF grabTask_heap]) (simp_all add: profHeap_def)

lemma cpu1:
  "concurrentGrab world0 [taskCpu] None noObj =
     ((Some profCpu, Some Map.empty, False, 1, None),
      snd (concurrentGrab world0 [taskCpu] None noObj))"
  using concurrentGrab_replicate_world0 [OF grabTask_cpu, of 1 noObj]
  by (simp add: profCpu_def)

lemma heap1:
  "concurrentGrab world0 [taskHeap] None noObj =
     ((Some profHeap, Some Map.empty, False, 1, None),
      snd (concurrentGrab world0 [taskHeap] None noObj))"
  using concurrentGrab_replicate_world0 [OF grabTask_heap, of 1 noObj]
  by (simp add: profHeap_def)

subsection \<open>A merge error ends the call\<close>

text \<open>
  Claim C3. The loop stands at a chunk with a running profile \<open>p0\<close>; the chunk yields a
  profile and no error, and merging the two fails with \<open>err\<close>. Then the call returns \<open>err\<close>
  with a nil profile, a nil provenance map, \<open>False\<close> and the count 0, whatever the running
  provenance, flag and count were, and the UI has received nothing past this chunk. When the
  chunk is a full one the result is the same for every list of tasks that may follow it: no
  later task is looked at.
\<close>

theorem chunkedGrab_merge_error:
  assumes more: "start < length sources"
    and chunk: "concurrentGrab w (slice sources start (min (start + chunkSize) (length sources)))
           fetcher obj = ((Some cp, cm, cs, cc, None), cout)"
    and merge: "combineProfiles w [p0, cp] [msrc, cm] = Inl err"
  shows "chunkedGrab_loop w sources fetcher obj start (Some p0) msrc save count out =
           ((None, None, False, 0, Some err), out @ cout) \<and>
         (start + chunkSize \<le> length sources \<longrightarrow>
            (\<forall>rest. chunkedGrab_loop w (take (start + chunkSize) sources @ rest) fetcher obj
                      start (Some p0) msrc save count out =
                    ((None, None, False, 0, Some err), out @ cout)))"
proof -
  have here: "chunkedGrab_loop w sources fetcher obj start (Some p0) msrc save count out =
      ((None, None, False, 0, Some err), out @ cout)"
    by (simp add: loop_step [OF more chunk] merge)
  have later: "chunkedGrab_loop w (take (start + chunkSize) sources @ rest) fetcher obj
        start (Some p0) msrc save count out = ((None, None, False, 0, Some err), out @ cout)"
    if full: "start + chunkSize \<le> length sources" for rest
  proof -
    have more': "start < length (take (start + chunkSize) sources @ rest)"
      using more by (simp add: chunkSize_def)
    have chunk': "concurrentGrab w
        (slice (take (start + chunkSize) sources @ rest) start
           (min (start + chunkSize) (length (take (start + chunkSize) sources @ rest))))
        fetcher obj = ((Some cp, cm, cs, cc, None), cout)"
      by (simp only: slice_full_chunk [OF full] chunk)
    show ?thesis
      by (simp add: loop_step [OF more' chunk'] merge)
  qed
  from here later show ?thesis by blast
qed

text \<open>
  In \<open>world0\<close>, on 129 tasks: the first chunk gives 64 profiles of \<^verbatim>\<open>cpu.pb\<close>, the second 64
  of \<^verbatim>\<open>heap.pb\<close>; their merge fails, and the call returns the error and the count 0.
\<close>

theorem chunkedGrab_merge_error_witness:
  "length tasks129 = 129 \<and>
   fst (concurrentGrab world0 (slice tasks129 0 64) None noObj) =
     (Some profCpu, Some Map.empty, False, 64, None) \<and>
   fst (concurrentGrab world0 (slice tasks129 64 128) None noObj) =
     (Some profHeap, Some Map.empty, False, 64, None) \<and>
   fst (chunkedGrab world0 tasks129 None noObj) =
     (None, None, False, 0, Some ''incompatible sample types'')"
proof -
  have len: "length tasks129 = 129" by (simp add: tasks129_def)
  have sl1: "slice tasks129 0 (min (0 + chunkSize) (length tasks129)) = replicate 64 taskCpu"
    by (simp add: slice_def chunkSize_def tasks129_def)
  have sl2: "slice tasks129 chunkSize (min (chunkSize + chunkSize) (length tasks129)) =
      replicate 64 taskHeap"
    by (simp add: slice_def chunkSize_def tasks129_def)
  have sl1': "slice tasks129 0 64 = replicate 64 taskCpu"
    by (simp add: slice_def tasks129_def)
  have sl2': "slice tasks129 64 128 = replicate 64 taskHeap"
    by (simp add: slice_def tasks129_def)
  have lt1: "0 < length tasks129" and lt2: "chunkSize < length tasks129"
    by (simp_all add: len chunkSize_def)
  have c1: "concurrentGrab world0 (slice tasks129 0 (min (0 + chunkSize) (length tasks129)))
      None noObj = ((Some profCpu, Some Map.empty, False, 64, None),
                    snd (concurrentGrab world0 (replicate 64 taskCpu) None noObj))"
    unfolding sl1 by (rule cpu64)
  have c2: "concurrentGrab world0
      (slice tasks129 chunkSize (min (chunkSize + chunkSize) (length tasks129)))
      None noObj = ((Some profHeap, Some Map.empty, False, 64, None),
                    snd (concurrentGrab world0 (replicate 64 taskHeap) None noObj))"
    unfolding sl2 by (rule heap64)
  have first: "chunkedGrab world0 tasks129 None noObj =
      chunkedGrab_loop world0 tasks129 None noObj chunkSize (Some profCpu) (Some Map.empty)
        False 64 (snd (concurrentGrab world0 (replicate 64 taskCpu) None noObj))"
    by (simp add: chunkedGrab_def loop_step [OF lt1 c1])
  have second: "fst (chunkedGrab_loop world0 tasks129 None noObj chunkSize (Some profCpu)
        (Some Map.empty) False 64 (snd (concurrentGrab world0 (replicate 64 taskCpu) None noObj)))
      = (None, None, False, 0, Some ''incompatible sample types'')"
    using chunkedGrab_merge_error [OF lt2 c2 combine_cpu_heap] by simp
  from len first second cpu64 [THEN fst_of_pair] heap64 [THEN fst_of_pair] show ?thesis
    by (simp add: sl1' sl2')
qed

subsection \<open>Sixty-five tasks\<close>

text \<open>The chunks of a list: they make up the list, in order, each of 1 to \<open>n\<close> elements.\<close>

lemma chunksOf_Nil: "chunksOf n [] = []"
  by (simp add: chunksOf.simps)

lemma chunksOf_Cons:
  "0 < n \<Longrightarrow> xs \<noteq> [] \<Longrightarrow> chunksOf n xs = take n xs # chunksOf n (drop n xs)"
  by (subst chunksOf.simps) simp

lemma concat_chunksOf: "0 < n \<Longrightarrow> concat (chunksOf n xs) = xs"
proof (induction n xs rule: chunksOf.induct)
  case (1 n xs)
  show ?case
  proof (cases "xs = []")
    case True
    then show ?thesis by (simp add: chunksOf_Nil)
  next
    case False
    with "1" show ?thesis by (simp add: chunksOf_Cons)
  qed
qed

lemma chunksOf_bounds:
  "0 < n \<Longrightarrow> c \<in> set (chunksOf n xs) \<Longrightarrow> c \<noteq> [] \<and> length c \<le> n"
proof (induction n xs rule: chunksOf.induct)
  case (1 n xs)
  show ?case
  proof (cases "xs = []")
    case True
    with "1.prems" show ?thesis by (simp add: chunksOf_Nil)
  next
    case False
    with "1" show ?thesis by (auto simp: chunksOf_Cons)
  qed
qed

lemma length_chunksOf: "0 < n \<Longrightarrow> length (chunksOf n xs) = (length xs + (n - 1)) div n"
proof (induction n xs rule: chunksOf.induct)
  case (1 n xs)
  show ?case
  proof (cases "xs = []")
    case True
    with "1.prems" show ?thesis by (simp add: chunksOf_Nil)
  next
    case False
    have step: "length (chunksOf n xs) = Suc (length (chunksOf n (drop n xs)))"
      using False "1.prems" by (simp add: chunksOf_Cons)
    have IH: "length (chunksOf n (drop n xs)) = (length xs - n + (n - 1)) div n"
      using "1.IH" False "1.prems" by simp
    show ?thesis
    proof (cases "length xs \<le> n")
      case True
      from False have pos: "0 < length xs" by simp
      have "n \<le> length xs + (n - 1)" "length xs + (n - 1) < 2 * n"
        using True pos "1.prems" by arith+
      then have "(length xs + (n - 1)) div n = 1"
        using "1.prems" by (intro div_nat_eqI) simp_all
      moreover from True have "length xs - n + (n - 1) < n"
        using "1.prems" by arith
      ultimately show ?thesis
        by (simp add: step IH chunksOf_Nil)
    next
      case long: False
      then have "length xs + (n - 1) = (length xs - n + (n - 1)) + n"
        by arith
      moreover have "(length xs - n + (n - 1) + n) div n = (length xs - n + (n - 1)) div n + 1"
        by (rule div_add_self2) (use "1.prems" in simp)
      ultimately have "(length xs + (n - 1)) div n = Suc ((length xs - n + (n - 1)) div n)"
        by (simp only: Suc_eq_plus1)
      then show ?thesis
        by (simp add: step IH)
    qed
  qed
qed

lemma nth_chunksOf:
  "0 < n \<Longrightarrow> i < length (chunksOf n xs) \<Longrightarrow> chunksOf n xs ! i = take n (drop (n * i) xs)"
proof (induction n xs arbitrary: i rule: chunksOf.induct)
  case (1 n xs)
  show ?case
  proof (cases "xs = []")
    case True
    with "1.prems" show ?thesis by (simp add: chunksOf_Nil)
  next
    case False
    show ?thesis
    proof (cases i)
      case 0
      with False "1.prems" show ?thesis by (simp add: chunksOf_Cons)
    next
      case (Suc j)
      with False "1.prems" have "j < length (chunksOf n (drop n xs))"
        by (simp add: chunksOf_Cons)
      with "1.IH" [of j] False "1.prems"(1) Suc show ?thesis
        by (simp add: chunksOf_Cons add.commute)
    qed
  qed
qed

lemma loop_chunkedGrab_spec:
  "chunkedGrab_loop w sources fetcher obj start p msrc save count out =
     chunkedGrab_spec w fetcher obj (chunksOf chunkSize (drop start sources)) p msrc save count out"
proof (induction "length sources - start" arbitrary: start p msrc save count out rule: less_induct)
  case less
  show ?case
  proof (cases "start < length sources")
    case False
    then show ?thesis by (simp add: loop_exit chunksOf_Nil)
  next
    case True
    let ?chunk = "slice sources start (min (start + chunkSize) (length sources))"
    have chunk: "?chunk = take chunkSize (drop start sources)"
      by (simp add: slice_def min_def)
    have ne: "drop start sources \<noteq> []" using True by simp
    have pos: "0 < chunkSize" by (simp add: chunkSize_def)
    have cs: "chunksOf chunkSize (drop start sources) =
        ?chunk # chunksOf chunkSize (drop (start + chunkSize) sources)"
    proof -
      have a: "chunksOf chunkSize (drop start sources) =
          take chunkSize (drop start sources) #
          chunksOf chunkSize (drop chunkSize (drop start sources))"
        by (rule chunksOf_Cons [OF pos ne])
      have b: "drop chunkSize (drop start sources) = drop (start + chunkSize) sources"
        by (simp add: add.commute)
      from a show ?thesis by (simp only: chunk b)
    qed
    obtain cp cm csv cc ce cout where
      c: "concurrentGrab w ?chunk fetcher obj = ((cp, cm, csv, cc, ce), cout)"
      by (metis prod_cases5 surj_pair)
    have smaller: "length sources - (start + chunkSize) < length sources - start"
      using True by (simp add: chunkSize_def)
    note IH = less [OF smaller]
    show ?thesis
      unfolding loop_step [OF True c] cs
      by (simp add: c IH split: option.splits sum.splits prod.splits)
  qed
qed

text \<open>Sixty-five tasks without an error: the count is the sum of the counts of the chunks.\<close>

lemma chunkedGrab_65_count:
  assumes len: "length sources = 65"
    and c1: "concurrentGrab w (take 64 sources) fetcher obj = ((p1, m1, s1, n1, None), o1)"
    and c2: "concurrentGrab w (drop 64 sources) fetcher obj = ((p2, m2, s2, n2, None), o2)"
    and merge: "\<forall>a b. p1 = Some a \<and> p2 = Some b \<longrightarrow>
                  (\<exists>r. combineProfiles w [a, b] [m1, m2] = Inr r)"
  shows "length (take 64 sources) = 64 \<and> length (drop 64 sources) = 1 \<and>
         take 64 sources @ drop 64 sources = sources \<and>
         (\<exists>p msrc save. chunkedGrab w sources fetcher obj =
                           ((p, msrc, save, n1 + n2, None), o1 @ o2))"
proof -
  have sl1: "slice sources 0 (min (0 + chunkSize) (length sources)) = take 64 sources"
    by (simp add: slice_def chunkSize_def len)
  have sl2: "slice sources chunkSize (min (chunkSize + chunkSize) (length sources)) =
      drop 64 sources"
    by (simp add: slice_def chunkSize_def len)
  have lt1: "0 < length sources" and lt2: "chunkSize < length sources"
    and ge3: "\<not> chunkSize + chunkSize < length sources"
    by (simp_all add: len chunkSize_def)
  have c1': "concurrentGrab w (slice sources 0 (min (0 + chunkSize) (length sources)))
      fetcher obj = ((p1, m1, s1, n1, None), o1)"
    by (simp only: sl1 c1)
  have c2': "concurrentGrab w (slice sources chunkSize
      (min (chunkSize + chunkSize) (length sources))) fetcher obj = ((p2, m2, s2, n2, None), o2)"
    by (simp only: sl2 c2)
  note step1 = loop_step [OF lt1 c1']
  note step2 = loop_step [OF lt2 c2']
  have run: "\<exists>p msrc save. chunkedGrab w sources fetcher obj =
      ((p, msrc, save, n1 + n2, None), o1 @ o2)"
  proof (cases p1)
    case None
    then have n1: "n1 = 0" using c1 by (auto dest: concurrentGrab_nil_count)
    show ?thesis
    proof (cases p2)
      case None
      then have "n2 = 0" using c2 by (auto dest: concurrentGrab_nil_count)
      with None \<open>p1 = None\<close> n1 show ?thesis
        by (auto simp: chunkedGrab_def step1 step2 loop_exit [OF ge3])
    next
      case (Some b)
      with \<open>p1 = None\<close> n1 show ?thesis
        by (auto simp: chunkedGrab_def step1 step2 loop_exit [OF ge3])
    qed
  next
    case (Some a)
    show ?thesis
    proof (cases p2)
      case None
      then have "n2 = 0" using c2 by (auto dest: concurrentGrab_nil_count)
      with None Some show ?thesis
        by (auto simp: chunkedGrab_def step1 step2 loop_exit [OF ge3])
    next
      case b: (Some b)
      with Some merge obtain p' msrc' where "combineProfiles w [a, b] [m1, m2] = Inr (p', msrc')"
        by fastforce
      with b Some show ?thesis
        by (auto simp: chunkedGrab_def step1 step2 loop_exit [OF ge3])
    qed
  qed
  with len show ?thesis by simp
qed

lemma chunksOf_65:
  assumes "length sources = 65"
  shows "chunksOf chunkSize sources = [take 64 sources, drop 64 sources]"
proof -
  have pos: "0 < chunkSize" by (simp add: chunkSize_def)
  have ne1: "sources \<noteq> []" and ne2: "drop chunkSize sources \<noteq> []"
    using assms by (auto simp: chunkSize_def)
  have last: "drop chunkSize (drop chunkSize sources) = []"
    and one: "take chunkSize (drop chunkSize sources) = drop chunkSize sources"
    using assms by (simp_all add: chunkSize_def)
  have a: "chunksOf chunkSize sources =
      take chunkSize sources # chunksOf chunkSize (drop chunkSize sources)"
    by (rule chunksOf_Cons [OF pos ne1])
  have b: "chunksOf chunkSize (drop chunkSize sources) =
      take chunkSize (drop chunkSize sources) #
      chunksOf chunkSize (drop chunkSize (drop chunkSize sources))"
    by (rule chunksOf_Cons [OF pos ne2])
  have c: "chunksOf chunkSize (drop chunkSize (drop chunkSize sources)) = []"
    by (simp only: last chunksOf_Nil)
  have "chunksOf chunkSize sources = [take chunkSize sources, drop chunkSize sources]"
    by (simp only: a b c one)
  then show ?thesis
    by (simp add: chunkSize_def)
qed

text \<open>
  Claim C8, as the code has it. For every list of tasks, the chunks are consecutive pieces of
  the list: together they are the list, there are as many as 64 goes into the length, rounded
  up, and chunk \<open>i\<close> is the up to 64 tasks from position \<open>64 i\<close> on, never empty.
  \<open>chunkedGrab\<close> processes these chunks strictly in order, as the specification words it. A
  list of 65 tasks is the chunk of its first 64 tasks followed by the chunk of its last task;
  when \<open>concurrentGrab\<close> returns no error for either chunk, and merging the two results does
  not fail should both carry a profile, \<open>chunkedGrab\<close> returns no error, the sum of the two
  success counts, and what the UI received for the first chunk followed by what it received
  for the second.
\<close>

theorem chunkedGrab_partition:
  "concat (chunksOf chunkSize sources) = sources \<and>
   length (chunksOf chunkSize sources) = (length sources + 63) div 64 \<and>
   (\<forall>i < length (chunksOf chunkSize sources).
      chunksOf chunkSize sources ! i = take 64 (drop (64 * i) sources) \<and>
      chunksOf chunkSize sources ! i \<noteq> [] \<and>
      length (chunksOf chunkSize sources ! i) \<le> 64) \<and>
   chunkedGrab w sources fetcher obj =
     chunkedGrab_spec w fetcher obj (chunksOf chunkSize sources) None None False 0 [] \<and>
   (length sources = 65 \<longrightarrow>
      chunksOf chunkSize sources = [take 64 sources, drop 64 sources] \<and>
      length (take 64 sources) = 64 \<and> length (drop 64 sources) = 1 \<and>
      (\<forall>p1 m1 s1 n1 o1 p2 m2 s2 n2 o2.
         concurrentGrab w (take 64 sources) fetcher obj = ((p1, m1, s1, n1, None), o1) \<and>
         concurrentGrab w (drop 64 sources) fetcher obj = ((p2, m2, s2, n2, None), o2) \<and>
         (\<forall>a b. p1 = Some a \<and> p2 = Some b \<longrightarrow>
                (\<exists>r. combineProfiles w [a, b] [m1, m2] = Inr r)) \<longrightarrow>
         (\<exists>p msrc save. chunkedGrab w sources fetcher obj =
                           ((p, msrc, save, n1 + n2, None), o1 @ o2))))"
proof -
  have pos: "0 < chunkSize" by (simp add: chunkSize_def)
  have whole: "concat (chunksOf chunkSize sources) = sources"
    by (rule concat_chunksOf [OF pos])
  have number: "length (chunksOf chunkSize sources) = (length sources + 63) div 64"
    using length_chunksOf [OF pos, of sources] by (simp add: chunkSize_def)
  have piece: "chunksOf chunkSize sources ! i = take 64 (drop (64 * i) sources) \<and>
      chunksOf chunkSize sources ! i \<noteq> [] \<and> length (chunksOf chunkSize sources ! i) \<le> 64"
    if "i < length (chunksOf chunkSize sources)" for i
  proof -
    have "chunksOf chunkSize sources ! i \<in> set (chunksOf chunkSize sources)"
      using that by simp
    from chunksOf_bounds [OF pos this] nth_chunksOf [OF pos that] show ?thesis
      by (simp add: chunkSize_def)
  qed
  have run: "chunkedGrab w sources fetcher obj =
      chunkedGrab_spec w fetcher obj (chunksOf chunkSize sources) None None False 0 []"
    using loop_chunkedGrab_spec [of w sources fetcher obj 0] by (simp add: chunkedGrab_def)
  have sixty_five: "chunksOf chunkSize sources = [take 64 sources, drop 64 sources] \<and>
      length (take 64 sources) = 64 \<and> length (drop 64 sources) = 1 \<and>
      (\<forall>p1 m1 s1 n1 o1 p2 m2 s2 n2 o2.
         concurrentGrab w (take 64 sources) fetcher obj = ((p1, m1, s1, n1, None), o1) \<and>
         concurrentGrab w (drop 64 sources) fetcher obj = ((p2, m2, s2, n2, None), o2) \<and>
         (\<forall>a b. p1 = Some a \<and> p2 = Some b \<longrightarrow>
                (\<exists>r. combineProfiles w [a, b] [m1, m2] = Inr r)) \<longrightarrow>
         (\<exists>p msrc save. chunkedGrab w sources fetcher obj =
                           ((p, msrc, save, n1 + n2, None), o1 @ o2)))"
    if len: "length sources = 65"
    using chunksOf_65 [OF len] chunkedGrab_65_count [OF len] len by simp blast
  from whole number piece run sixty_five show ?thesis by blast
qed

text \<open>
  In \<open>world0\<close>: 65 tasks for the same file are the chunks of 64 and 1, with 64 and 1
  profiles, 65 in all; 129 tasks are three chunks, the last one of a single task.
\<close>

theorem chunkedGrab_partition_witness:
  "length tasks65ok = 65 \<and>
   chunksOf chunkSize tasks65ok = [replicate 64 taskCpu, [taskCpu]] \<and>
   countOf (fst (concurrentGrab world0 (take 64 tasks65ok) None noObj)) = 64 \<and>
   countOf (fst (concurrentGrab world0 (drop 64 tasks65ok) None noObj)) = 1 \<and>
   countOf (fst (chunkedGrab world0 tasks65ok None noObj)) = 65 \<and>
   length (chunksOf chunkSize tasks129) = 3 \<and>
   chunksOf chunkSize tasks129 ! 2 = [taskCpu]"
proof -
  have len: "length tasks65ok = 65" by (simp add: tasks65ok_def)
  have t1: "take 64 tasks65ok = replicate 64 taskCpu"
    and t2: "drop 64 tasks65ok = [taskCpu]"
    by (simp_all add: tasks65ok_def)
  have c1: "concurrentGrab world0 (take 64 tasks65ok) None noObj =
      ((Some profCpu, Some Map.empty, False, 64, None),
       snd (concurrentGrab world0 (replicate 64 taskCpu) None noObj))"
    unfolding t1 by (rule cpu64)
  have c2: "concurrentGrab world0 (drop 64 tasks65ok) None noObj =
      ((Some profCpu, Some Map.empty, False, 1, None),
       snd (concurrentGrab world0 [taskCpu] None noObj))"
    unfolding t2 by (rule cpu1)
  have merge: "\<forall>a b. Some profCpu = Some a \<and> Some profCpu = Some b \<longrightarrow>
      (\<exists>r. combineProfiles world0 [a, b] [Some Map.empty, Some Map.empty] = Inr r)"
    using combine_cpu_cpu by auto
  note inst = chunkedGrab_partition [of tasks65ok world0 None noObj]
  from inst len have cs: "chunksOf chunkSize tasks65ok = [take 64 tasks65ok, drop 64 tasks65ok]"
    by blast
  from inst len c1 c2 merge
  have "\<exists>p msrc save. chunkedGrab world0 tasks65ok None noObj =
      ((p, msrc, save, 64 + 1, None),
       snd (concurrentGrab world0 (replicate 64 taskCpu) None noObj) @
       snd (concurrentGrab world0 [taskCpu] None noObj))"
    by blast
  then have total: "countOf (fst (chunkedGrab world0 tasks65ok None noObj)) = 65"
    by (auto simp: countOf_def)
  note inst3 = chunkedGrab_partition [of tasks129 world0 None noObj]
  have len3: "length tasks129 = 129" by (simp add: tasks129_def)
  from inst3 have n3: "length (chunksOf chunkSize tasks129) = 3"
    by (simp add: len3)
  from inst3 have "\<forall>i < length (chunksOf chunkSize tasks129).
      chunksOf chunkSize tasks129 ! i = take 64 (drop (64 * i) tasks129)"
    by blast
  with n3 have third: "chunksOf chunkSize tasks129 ! 2 = [taskCpu]"
    by (simp add: tasks129_def)
  from len cs total n3 third c1 [THEN fst_of_pair] c2 [THEN fst_of_pair] show ?thesis
    by (simp add: countOf_def t1 t2)
qed

text \<open>
  Claim C8 as it is stated fails: the two chunks of \<open>tasks65\<close> succeed with the counts 64
  and 1, the merge of their results fails, and the call returns the count 0.
\<close>

theorem chunkedGrab_65_merge_error:
  "length tasks65 = 65 \<and>
   fst (concurrentGrab world0 (take 64 tasks65) None noObj) =
     (Some profCpu, Some Map.empty, False, 64, None) \<and>
   fst (concurrentGrab world0 (drop 64 tasks65) None noObj) =
     (Some profHeap, Some Map.empty, False, 1, None) \<and>
   fst (chunkedGrab world0 tasks65 None noObj) =
     (None, None, False, 0, Some ''incompatible sample types'')"
proof -
  have len: "length tasks65 = 65" by (simp add: tasks65_def)
  have t1: "take 64 tasks65 = replicate 64 taskCpu"
    and t2: "drop 64 tasks65 = [taskHeap]"
    by (simp_all add: tasks65_def)
  have sl1: "slice tasks65 0 (min (0 + chunkSize) (length tasks65)) = replicate 64 taskCpu"
    by (simp add: slice_def chunkSize_def tasks65_def)
  have sl2: "slice tasks65 chunkSize (min (chunkSize + chunkSize) (length tasks65)) = [taskHeap]"
    by (simp add: slice_def chunkSize_def tasks65_def)
  have lt1: "0 < length tasks65" and lt2: "chunkSize < length tasks65"
    by (simp_all add: len chunkSize_def)
  have c1: "concurrentGrab world0 (slice tasks65 0 (min (0 + chunkSize) (length tasks65)))
      None noObj = ((Some profCpu, Some Map.empty, False, 64, None),
                    snd (concurrentGrab world0 (replicate 64 taskCpu) None noObj))"
    unfolding sl1 by (rule cpu64)
  have c2: "concurrentGrab world0
      (slice tasks65 chunkSize (min (chunkSize + chunkSize) (length tasks65)))
      None noObj = ((Some profHeap, Some Map.empty, False, 1, None),
                    snd (concurrentGrab world0 [taskHeap] None noObj))"
    unfolding sl2 by (rule heap1)
  have run: "fst (chunkedGrab world0 tasks65 None noObj) =
      (None, None, False, 0, Some ''incompatible sample types'')"
    by (simp add: chunkedGrab_def loop_step [OF lt1 c1] loop_step [OF lt2 c2] combine_cpu_heap)
  from len run cpu64 [THEN fst_of_pair] heap1 [THEN fst_of_pair] show ?thesis
    by (simp add: t1 t2)
qed

section \<open>Properties of fetchProfiles\<close>

text \<open>\<open>fetchProfiles\<close> always returns: it dereferences the profile only when there is one.\<close>

lemma fetchProfiles_returns: "\<exists>r. fst (fetchProfiles w s opts) = Returns r"
proof -
  obtain p msrcs save cnt err out where
    c: "chunkedGrab w (tasksOf s) (Fetch opts) (Obj opts) = ((p, msrcs, save, cnt, err), out)"
    by (metis prod_cases5 surj_pair)
  have "cnt = 0" if "p = None"
    using loop_nil_count [of None 0 w "tasksOf s" "Fetch opts" "Obj opts" 0 None False "[]"
        msrcs save cnt err] c that
    by (simp add: chunkedGrab_def)
  then show ?thesis
    by (auto simp: fetchProfiles_def Let_def c split: option.splits sum.splits prod.splits)
qed

text \<open>
  Claim C2. When \<open>chunkedGrab\<close> returns the count 0 and no error, \<open>fetchProfiles\<close> returns
  no profile and the error \<^verbatim>\<open>failed to fetch any profiles\<close>. That is the case in particular
  when every task of the run fails.
\<close>

theorem fetchProfiles_none_fetched:
  "(\<forall>p msrcs save.
      fst (chunkedGrab w (tasksOf s) (Fetch opts) (Obj opts)) = (p, msrcs, save, 0, None) \<longrightarrow>
      fst (fetchProfiles w s opts) = Returns (None, Some ''failed to fetch any profiles'')) \<and>
   ((\<forall>t \<in> set (tasksOf s). \<exists>e. grabTask w (Fetch opts) (Obj opts) t = Inl e) \<longrightarrow>
      fst (fetchProfiles w s opts) = Returns (None, Some ''failed to fetch any profiles''))"
proof -
  have zero: "fst (fetchProfiles w s opts) = Returns (None, Some ''failed to fetch any profiles'')"
    if z: "fst (chunkedGrab w (tasksOf s) (Fetch opts) (Obj opts)) = (p, msrcs, save, 0, None)"
    for p msrcs save
  proof -
    obtain out where "chunkedGrab w (tasksOf s) (Fetch opts) (Obj opts) =
        ((p, msrcs, save, 0, None), out)"
      using pair_fst_snd [OF z] by blast
    then show ?thesis
      by (simp add: fetchProfiles_def Let_def)
  qed
  have "fst (chunkedGrab w (tasksOf s) (Fetch opts) (Obj opts)) = (None, None, False, 0, None)"
    if "\<forall>t \<in> set (tasksOf s). \<exists>e. grabTask w (Fetch opts) (Obj opts) t = Inl e"
    unfolding chunkedGrab_def by (rule loop_all_fail [OF that])
  with zero show ?thesis by blast
qed

text \<open>In \<open>world0\<close>, with a source and a base file that do not exist.\<close>

theorem fetchProfiles_none_fetched_witness:
  "tasksOf cfgMissing =
     [\<lparr>addr = ''/missing.pb'', psource = cfgMissing, scale = 1\<rparr>,
      \<lparr>addr = ''/base.pb'', psource = cfgMissing, scale = - 1\<rparr>] \<and>
   fst (fetchProfiles world0 cfgMissing opts0) =
     Returns (None, Some ''failed to fetch any profiles'')"
proof -
  have tasks: "tasksOf cfgMissing =
     [\<lparr>addr = ''/missing.pb'', psource = cfgMissing, scale = 1\<rparr>,
      \<lparr>addr = ''/base.pb'', psource = cfgMissing, scale = - 1\<rparr>]"
    by (simp add: tasksOf_def cfgMissing_def)
  have "\<forall>t \<in> set (tasksOf cfgMissing). \<exists>e. grabTask world0 (Fetch opts0) (Obj opts0) t = Inl e"
    by (simp add: tasks opts0_def grabTask_missing_world0)
  with fetchProfiles_none_fetched [of world0 cfgMissing opts0] tasks show ?thesis
    by blast
qed

end
